theory Spec2Isabelle
  imports Main
begin

section \<open>JSON values as the gateway receives them\<close>

text \<open>
  The request body is parsed by \<^verbatim>\<open>express.json\<close>, so every field of the envelope and
  every parameter is a JSON value. An object is the list of its own properties in the
  order \<^verbatim>\<open>Object.keys\<close> enumerates them, with pairwise distinct keys; for keys that are
  not canonical array indices this is the order in which the keys were inserted.
  Numbers are the integers (a JavaScript number that is integral and below \<open>10\<^sup>2\<^sup>1\<close> in
  magnitude prints as its decimal numeral); fractional numbers are outside the model.
  A field that is absent (\<^verbatim>\<open>undefined\<close>) is \<open>None\<close>.
\<close>

datatype json =
    JNull
  | JBool bool
  | JNum int
  | JStr string
  | JArr "json list"
  | JObj "(string \<times> json) list"

text \<open>JavaScript truthiness, as used by \<^verbatim>\<open>!x\<close> and \<^verbatim>\<open>x || y\<close>.\<close>

fun truthy :: "json option \<Rightarrow> bool" where
  "truthy None = False"
| "truthy (Some JNull) = False"
| "truthy (Some (JBool b)) = b"
| "truthy (Some (JNum n)) = (n \<noteq> 0)"
| "truthy (Some (JStr s)) = (s \<noteq> [])"
| "truthy (Some (JArr xs)) = True"
| "truthy (Some (JObj kvs)) = True"

subsection \<open>\<^verbatim>\<open>JSON.stringify\<close>\<close>

definition hexdigit :: "nat \<Rightarrow> char" where
  "hexdigit d = (if d < 10 then char_of (48 + d) else char_of (87 + d))"

text \<open>\<^verbatim>\<open>QuoteJSONString\<close>: the escape of one code unit.\<close>

definition esc :: "char \<Rightarrow> string" where
  "esc c =
     (if c = CHR 0x22 then [CHR 0x5C, CHR 0x22]
      else if c = CHR 0x5C then [CHR 0x5C, CHR 0x5C]
      else if c = CHR 0x08 then [CHR 0x5C, CHR ''b'']
      else if c = CHR 0x0C then [CHR 0x5C, CHR ''f'']
      else if c = CHR 0x0A then [CHR 0x5C, CHR ''n'']
      else if c = CHR 0x0D then [CHR 0x5C, CHR ''r'']
      else if c = CHR 0x09 then [CHR 0x5C, CHR ''t'']
      else if (of_char c :: nat) < 32 then
        [CHR 0x5C, CHR ''u'', CHR ''0'', CHR ''0'',
         hexdigit ((of_char c :: nat) div 16), hexdigit ((of_char c :: nat) mod 16)]
      else [c])"

definition quote :: "string \<Rightarrow> string" where
  "quote s = CHR 0x22 # concat (map esc s) @ [CHR 0x22]"

fun digits :: "nat \<Rightarrow> string" where
  "digits n = (if n < 10 then [char_of (48 + n)] else digits (n div 10) @ [char_of (48 + n mod 10)])"

declare digits.simps [simp del]

definition numeral_text :: "int \<Rightarrow> string" where
  "numeral_text i = (if i < 0 then CHR ''-'' # digits (nat (- i)) else digits (nat i))"

fun join_with :: "string \<Rightarrow> string list \<Rightarrow> string" where
  "join_with sep [] = []"
| "join_with sep [x] = x"
| "join_with sep (x # y # ys) = x @ sep @ join_with sep (y # ys)"

fun stringify :: "json \<Rightarrow> string"
  and elements :: "json list \<Rightarrow> string list"
  and members :: "(string \<times> json) list \<Rightarrow> string list" where
  "stringify JNull = ''null''"
| "stringify (JBool b) = (if b then ''true'' else ''false'')"
| "stringify (JNum i) = numeral_text i"
| "stringify (JStr s) = quote s"
| "stringify (JArr xs) = ''['' @ join_with '','' (elements xs) @ '']''"
| "stringify (JObj kvs) = ''{'' @ join_with '','' (members kvs) @ ''}''"
| "elements [] = []"
| "elements (x # xs) = stringify x # elements xs"
| "members [] = []"
| "members ((k, v) # kvs) = (quote k @ '':'' @ stringify v) # members kvs"

text \<open>
  The cache key of the dispatcher (\<^verbatim>\<open>index.js\<close>, lines 120 and 227):
  \<^verbatim>\<open>`${ method }:${ JSON.stringify(params) }`\<close>. When \<^verbatim>\<open>params\<close> is absent,
  \<^verbatim>\<open>JSON.stringify(undefined)\<close> is \<^verbatim>\<open>undefined\<close> and the template prints it as such.
\<close>

definition cacheKey :: "string \<Rightarrow> json option \<Rightarrow> string" where
  "cacheKey method params =
     method @ '':'' @ (case params of None \<Rightarrow> ''undefined'' | Some p \<Rightarrow> stringify p)"


section \<open>Failures\<close>

text \<open>
  A thrown JavaScript error: its \<^verbatim>\<open>code\<close> and \<^verbatim>\<open>httpCode\<close> properties when they were
  set, and its message. Errors raised by the engine itself (a \<^verbatim>\<open>TypeError\<close>) carry
  neither property; their message is the engine's own text, given here in V8's wording
  (for a failed destructuring without the name of the property).
\<close>

datatype fault = Fault (fcode: "int option") (fhttp: "int option") (fmsg: string)

definition invalidParams :: "string \<Rightarrow> fault" where
  "invalidParams msg = Fault (Some (- 32602)) None msg"

definition mcpError :: "string \<Rightarrow> string \<Rightarrow> fault" where
  "mcpError prefix msg = Fault (Some (- 32000)) None (prefix @ msg)"

definition typeError :: "string \<Rightarrow> fault" where
  "typeError msg = Fault None None msg"

text \<open>
  Destructuring the handler argument, \<^verbatim>\<open>{ prompt, session_id, ... }\<close>: it throws on
  \<^verbatim>\<open>undefined\<close> and \<^verbatim>\<open>null\<close>; an object yields its own properties; any other value
  has none of the parameter names the handlers use.
\<close>

definition destructure :: "json option \<Rightarrow> fault + (string \<Rightarrow> json option)" where
  "destructure params =
     (case params of
        None \<Rightarrow> Inl (typeError ''Cannot destructure property of 'undefined' as it is undefined.'')
      | Some JNull \<Rightarrow> Inl (typeError ''Cannot destructure property of 'null' as it is null.'')
      | Some (JObj kvs) \<Rightarrow> Inr (map_of kvs)
      | Some _ \<Rightarrow> Inr (\<lambda>name. None))"

text \<open>The handlers answer with one text block: \<^verbatim>\<open>{ content: [ { type: 'text', text } ] }\<close>.\<close>

definition textContent :: "string \<Rightarrow> json" where
  "textContent t = JObj [(''content'', JArr [JObj [(''type'', JStr ''text''), (''text'', JStr t)]])]"

section \<open>Session context store\<close>

datatype role = User | Assistant

datatype turn = Turn (role: role) (content: string)

text \<open>
  \<^verbatim>\<open>contextStore\<close> is a \<^verbatim>\<open>Map\<close>, which compares keys by SameValueZero. On strings,
  numbers and booleans this is equality of values. An array or an object is compared by
  identity, and every request parses a fresh one: looking such a key up never finds an
  entry, and the entry stored under it is never found again.
\<close>

type_synonym context_store = "json \<rightharpoonup> turn list"

fun byReference :: "json \<Rightarrow> bool" where
  "byReference (JArr xs) = True"
| "byReference (JObj kvs) = True"
| "byReference v = False"

definition contextGet :: "context_store \<Rightarrow> json \<Rightarrow> turn list option" where
  "contextGet store sid = (if byReference sid then None else store sid)"

definition contextSet :: "context_store \<Rightarrow> json \<Rightarrow> turn list \<Rightarrow> context_store" where
  "contextSet store sid turns = store(sid \<mapsto> turns)"

definition contextDelete :: "context_store \<Rightarrow> json \<Rightarrow> context_store" where
  "contextDelete store sid = (if byReference sid then store else store(sid := None))"

text \<open>\<^verbatim>\<open>xs.slice(-n)\<close>: the last \<open>n\<close> elements, the whole array when it is shorter.\<close>

definition sliceLast :: "nat \<Rightarrow> 'a list \<Rightarrow> 'a list" where
  "sliceLast n xs = drop (length xs - n) xs"

section \<open>Generative handlers\<close>

text \<open>
  One invocation of a provider either resolves or rejects. A rejection carries the
  \<^verbatim>\<open>status\<close> of the provider's error (absent for a failure that is not an HTTP reply) and
  its message. A resolved reply yields the generated text, or is malformed, so that reading
  \<^verbatim>\<open>response.choices[0].message.content\<close> (\<^verbatim>\<open>response.content[0].text\<close>) throws a
  \<^verbatim>\<open>TypeError\<close> with the given message.
  The provider is a function of the request sent and of the number of invocations made
  before this one in the same handler call.
\<close>

datatype reply = Text string | Malformed string

datatype outcome = Resolved reply | Rejected "int option" string

record chat_request =
  model :: json
  messages :: "turn list"
  max_tokens :: json

type_synonym provider = "chat_request \<Rightarrow> nat \<Rightarrow> outcome"

definition maxAttempts :: nat where
  "maxAttempts = 3"

text \<open>\<^verbatim>\<open>apiError.status === 429 || apiError.status >= 500\<close>\<close>

definition retryable :: "int option \<Rightarrow> bool" where
  "retryable status = (case status of None \<Rightarrow> False | Some s \<Rightarrow> s = 429 \<or> s \<ge> 500)"

text \<open>
  How the \<^verbatim>\<open>while\<close> loop is left: with a response (\<^verbatim>\<open>break\<close>), by rethrowing the
  provider's error, or by its condition turning false with \<^verbatim>\<open>response\<close> still unset.
  The second component counts the provider invocations made. The delay of
  \<^verbatim>\<open>2 ** attempts * 1000\<close> milliseconds before the next attempt is not part of the model.
\<close>

datatype loop_exit = Got reply | Threw "int option" string | Unset

function openaiLoop :: "(nat \<Rightarrow> outcome) \<Rightarrow> nat \<Rightarrow> nat \<Rightarrow> loop_exit \<times> nat" where
  "openaiLoop create attempts calls =
     (if attempts < maxAttempts then
        (case create calls of
           Resolved response \<Rightarrow> (Got response, Suc calls)
         | Rejected status msg \<Rightarrow>
             (if attempts + 1 \<ge> maxAttempts \<or> \<not> retryable status
              then (Threw status msg, Suc calls)
              else openaiLoop create (attempts + 1) (Suc calls)))
      else (Unset, calls))"
  by pat_completeness auto
termination
  by (relation "measure (\<lambda>(create, attempts, calls). maxAttempts - attempts)") auto

declare openaiLoop.simps [simp del]

function anthropicLoop :: "(nat \<Rightarrow> outcome) \<Rightarrow> nat \<Rightarrow> nat \<Rightarrow> loop_exit \<times> nat" where
  "anthropicLoop create attempts calls =
     (if attempts < maxAttempts then
        (case create calls of
           Resolved response \<Rightarrow> (Got response, Suc calls)
         | Rejected status msg \<Rightarrow>
             (if attempts + 1 \<ge> maxAttempts \<or> \<not> retryable status
              then (Threw status msg, Suc calls)
              else anthropicLoop create (attempts + 1) (Suc calls)))
      else (Unset, calls))"
  by pat_completeness auto
termination
  by (relation "measure (\<lambda>(create, attempts, calls). maxAttempts - attempts)") auto

declare anthropicLoop.simps [simp del]

definition isString :: "json option \<Rightarrow> bool" where
  "isString v = (case v of Some (JStr s) \<Rightarrow> True | _ \<Rightarrow> False)"

definition stringOf :: "json option \<Rightarrow> string" where
  "stringOf v = (case v of Some (JStr s) \<Rightarrow> s | _ \<Rightarrow> [])"

definition orDefault :: "json option \<Rightarrow> json \<Rightarrow> json" where
  "orDefault v d = (case v of None \<Rightarrow> d | Some x \<Rightarrow> x)"

text \<open>
  A handler call returns its result or the error it throws, the context store it leaves,
  and the number of provider invocations it made. The handler reads the store once,
  before its first \<^verbatim>\<open>await\<close>, and writes it at most once, after the last; a call is
  modelled on its own, without other requests running at its \<^verbatim>\<open>await\<close>s.
\<close>

definition handleOpenAIGenerate ::
  "provider \<Rightarrow> context_store \<Rightarrow> json option \<Rightarrow> (fault + json) \<times> context_store \<times> nat" where
  "handleOpenAIGenerate openai store params =
     (case destructure params of
        Inl e \<Rightarrow> (Inl e, store, 0)
      | Inr arg \<Rightarrow>
          let prompt = arg ''prompt'';
              model = orDefault (arg ''model'') (JStr ''gpt-4o'');
              max_tokens = orDefault (arg ''max_tokens'') (JNum 1000);
              session_id = arg ''session_id''
          in
          if \<not> truthy prompt \<or> \<not> isString prompt then
            (Inl (invalidParams ''Prompt is required and must be a string''), store, 0)
          else if \<not> truthy session_id then
            (Inl (invalidParams ''session_id is required''), store, 0)
          else
            let previousMessages =
                  (case contextGet store (the session_id) of None \<Rightarrow> [] | Some ms \<Rightarrow> ms);
                messages = previousMessages @ [Turn User (stringOf prompt)];
                request = \<lparr>model = model, messages = messages, max_tokens = max_tokens\<rparr>
            in
            (case openaiLoop (openai request) 0 0 of
               (Threw status msg, calls) \<Rightarrow> (Inl (mcpError ''OpenAI error: '' msg), store, calls)
             | (Unset, calls) \<Rightarrow>
                 (Inl (mcpError ''OpenAI error: ''
                        ''Cannot read properties of undefined (reading 'choices')''), store, calls)
             | (Got (Malformed msg), calls) \<Rightarrow> (Inl (mcpError ''OpenAI error: '' msg), store, calls)
             | (Got (Text responseContent), calls) \<Rightarrow>
                 let updatedMessages = messages @ [Turn Assistant responseContent];
                     contextToStore =
                       (if length updatedMessages > 10
                        then updatedMessages ! 0 # sliceLast 9 updatedMessages
                        else updatedMessages)
                 in (Inr (textContent responseContent),
                     contextSet store (the session_id) contextToStore, calls)))"

definition handleAnthropicGenerate ::
  "provider \<Rightarrow> context_store \<Rightarrow> json option \<Rightarrow> (fault + json) \<times> context_store \<times> nat" where
  "handleAnthropicGenerate anthropic store params =
     (case destructure params of
        Inl e \<Rightarrow> (Inl e, store, 0)
      | Inr arg \<Rightarrow>
          let prompt = arg ''prompt'';
              model = orDefault (arg ''model'') (JStr ''claude-3-5-sonnet-20240620'');
              max_tokens = orDefault (arg ''max_tokens'') (JNum 1000);
              session_id = arg ''session_id''
          in
          if \<not> truthy prompt \<or> \<not> isString prompt then
            (Inl (invalidParams ''Prompt is required and must be a string''), store, 0)
          else if \<not> truthy session_id then
            (Inl (invalidParams ''session_id is required''), store, 0)
          else
            let previousMessages =
                  (case contextGet store (the session_id) of None \<Rightarrow> [] | Some ms \<Rightarrow> ms);
                messages = previousMessages @ [Turn User (stringOf prompt)];
                request = \<lparr>model = model, messages = messages, max_tokens = max_tokens\<rparr>
            in
            (case anthropicLoop (anthropic request) 0 0 of
               (Threw status msg, calls) \<Rightarrow> (Inl (mcpError ''Anthropic error: '' msg), store, calls)
             | (Unset, calls) \<Rightarrow>
                 (Inl (mcpError ''Anthropic error: ''
                        ''Cannot read properties of undefined (reading 'content')''), store, calls)
             | (Got (Malformed msg), calls) \<Rightarrow>
                 (Inl (mcpError ''Anthropic error: '' msg), store, calls)
             | (Got (Text responseContent), calls) \<Rightarrow>
                 let updatedMessages = messages @ [Turn Assistant responseContent];
                     contextToStore =
                       (if length updatedMessages > 10
                        then updatedMessages ! 0 # sliceLast 9 updatedMessages
                        else updatedMessages)
                 in (Inr (textContent responseContent),
                     contextSet store (the session_id) contextToStore, calls)))"

definition handleClearContext ::
  "context_store \<Rightarrow> json option \<Rightarrow> (fault + json) \<times> context_store" where
  "handleClearContext store params =
     (case destructure params of
        Inl e \<Rightarrow> (Inl e, store)
      | Inr arg \<Rightarrow>
          let session_id = arg ''session_id'' in
          if \<not> truthy session_id then (Inl (invalidParams ''session_id is required''), store)
          else (Inr (textContent ''Context cleared successfully''),
                contextDelete store (the session_id)))"

section \<open>Aggregating handlers\<close>

subsection \<open>Conversions to text and property keys\<close>

text \<open>
  \<^verbatim>\<open>String(x)\<close>, which a template literal and a property access apply to a value that is
  not a string; an array prints its elements separated by commas, \<^verbatim>\<open>null\<close> as nothing.
\<close>

fun toText :: "json \<Rightarrow> string"
  and elementTexts :: "json list \<Rightarrow> string list" where
  "toText JNull = ''null''"
| "toText (JBool b) = (if b then ''true'' else ''false'')"
| "toText (JNum i) = numeral_text i"
| "toText (JStr s) = s"
| "toText (JArr xs) = join_with '','' (elementTexts xs)"
| "toText (JObj kvs) = ''[object Object]''"
| "elementTexts [] = []"
| "elementTexts (x # xs) = (if x = JNull then [] else toText x) # elementTexts xs"

definition textOf :: "json option \<Rightarrow> string" where
  "textOf v = (case v of None \<Rightarrow> ''undefined'' | Some x \<Rightarrow> toText x)"

text \<open>\<^verbatim>\<open>v.name\<close> on a value that is neither \<^verbatim>\<open>null\<close> nor \<^verbatim>\<open>undefined\<close>.\<close>

definition getProp :: "json \<Rightarrow> string \<Rightarrow> json option" where
  "getProp v name = (case v of JObj kvs \<Rightarrow> map_of kvs name | _ \<Rightarrow> None)"

text \<open>
  A JavaScript object built by assignments \<^verbatim>\<open>obj[k] = v\<close>: the list of its own
  properties in the order of their creation. \<^verbatim>\<open>Object.keys\<close> and \<^verbatim>\<open>Object.entries\<close>
  enumerate the keys that are array indices first, in ascending order, and the other keys
  after them in the order of creation.
\<close>

fun upsert :: "string \<Rightarrow> 'v \<Rightarrow> (string \<times> 'v) list \<Rightarrow> (string \<times> 'v) list" where
  "upsert k v [] = [(k, v)]"
| "upsert k v ((k', v') # kvs) = (if k = k' then (k, v) # kvs else (k', v') # upsert k v kvs)"

definition isDigit :: "char \<Rightarrow> bool" where
  "isDigit c \<longleftrightarrow> 48 \<le> (of_char c :: nat) \<and> (of_char c :: nat) \<le> 57"

definition decimal :: "string \<Rightarrow> nat" where
  "decimal s = foldl (\<lambda>n c. 10 * n + ((of_char c :: nat) - 48)) 0 s"

definition arrayIndex :: "string \<Rightarrow> nat option" where
  "arrayIndex s =
     (if s \<noteq> [] \<and> list_all isDigit s \<and> (s = ''0'' \<or> hd s \<noteq> CHR ''0'') \<and> decimal s \<le> 4294967294
      then Some (decimal s) else None)"

definition ownEntries :: "(string \<times> 'v) list \<Rightarrow> (string \<times> 'v) list" where
  "ownEntries obj =
     sort_key (\<lambda>e. the (arrayIndex (fst e))) (filter (\<lambda>e. arrayIndex (fst e) \<noteq> None) obj)
     @ filter (\<lambda>e. arrayIndex (fst e) = None) obj"

text \<open>The names every object inherits from \<^verbatim>\<open>Object.prototype\<close>.\<close>

definition protoNames :: "string list" where
  "protoNames = [''constructor'', ''__defineGetter__'', ''__defineSetter__'', ''hasOwnProperty'',
     ''__lookupGetter__'', ''__lookupSetter__'', ''isPrototypeOf'', ''propertyIsEnumerable'',
     ''toString'', ''valueOf'', ''__proto__'', ''toLocaleString'']"

subsection \<open>The upstream client\<close>

text \<open>
  An operation of \<^verbatim>\<open>VybeService\<close> resolves with the parsed reply or rejects with an error
  message. The replies are given by the environment, per operation and address. When
  several pending operations reject, \<^verbatim>\<open>Promise.all\<close> rejects with the one that does so
  first; which one that is, among the positions given, is for the environment to say.
\<close>

datatype upstream = Fulfilled json | Failed string

datatype call = WalletTokens json | WalletNfts json

record client =
  getWalletTokens :: "json \<Rightarrow> upstream"
  getWalletNfts :: "json \<Rightarrow> upstream"
  firstToReject :: "nat list \<Rightarrow> nat"

fun rejections :: "nat \<Rightarrow> upstream list \<Rightarrow> (nat \<times> string) list" where
  "rejections i [] = []"
| "rejections i (Fulfilled v # rs) = rejections (Suc i) rs"
| "rejections i (Failed m # rs) = (i, m) # rejections (Suc i) rs"

fun payloads :: "upstream list \<Rightarrow> json list" where
  "payloads [] = []"
| "payloads (Fulfilled v # rs) = v # payloads rs"
| "payloads (Failed m # rs) = payloads rs"

text \<open>\<^verbatim>\<open>await Promise.all(promises)\<close>: all the values, or the first rejection.\<close>

definition promiseAll :: "(nat list \<Rightarrow> nat) \<Rightarrow> upstream list \<Rightarrow> string + json list" where
  "promiseAll first rs =
     (case rejections 0 rs of
        [] \<Rightarrow> Inr (payloads rs)
      | (i, m) # others \<Rightarrow>
          (case map_of ((i, m) # others) (first (map fst ((i, m) # others))) of
             Some m' \<Rightarrow> Inl m'
           | None \<Rightarrow> Inl m))"

subsection \<open>\<^verbatim>\<open>handleSolanaWalletOverview\<close>\<close>

text \<open>
  \<^verbatim>\<open>result && result.data\<close> when it is truthy. The entries are then counted with
  \<^verbatim>\<open>.length\<close> and summed with \<^verbatim>\<open>.reduce\<close>, which only an array has; the callback reads a
  property of each entry, which throws on \<^verbatim>\<open>null\<close>.
\<close>

definition dataOf :: "json \<Rightarrow> json option" where
  "dataOf result =
     (if truthy (Some result) \<and> truthy (getProp result ''data'') then getProp result ''data'' else None)"

definition entriesOf :: "string \<Rightarrow> json \<Rightarrow> fault + json list" where
  "entriesOf what result =
     (case dataOf result of
        None \<Rightarrow> Inr []
      | Some (JArr xs) \<Rightarrow>
          if JNull \<in> set xs
          then Inl (typeError ''Cannot read properties of null (reading 'valueUsd')'')
          else Inr xs
      | Some _ \<Rightarrow> Inl (typeError (what @ ''.data.reduce is not a function'')))"

text \<open>
  The sum of the \<^verbatim>\<open>valueUsd\<close> (\<^verbatim>\<open>usdPrice\<close>) fields is floating-point arithmetic, or string
  concatenation when the upstream sends strings; its printed form is a parameter
  \<open>usdTotal\<close> of the handler, a function of the two lists of entries.
\<close>

definition overviewText :: "json \<Rightarrow> string \<Rightarrow> nat \<Rightarrow> nat \<Rightarrow> string" where
  "overviewText address formattedUsdValue tokenCount nftCount =
     ''Wallet Overview for '' @ toText address @ '':'' @ [CHR 0x0A]
     @ ''Total USD Value: $'' @ formattedUsdValue @ [CHR 0x0A]
     @ ''Number of Tokens: '' @ digits tokenCount @ [CHR 0x0A]
     @ ''Number of NFTs: '' @ digits nftCount"

text \<open>
  The handler returns its result or the error it throws, and the upstream operations it
  started, in order.
\<close>

definition handleSolanaWalletOverview ::
  "client \<Rightarrow> (json list \<Rightarrow> json list \<Rightarrow> string) \<Rightarrow> json option \<Rightarrow> (fault + json) \<times> call list" where
  "handleSolanaWalletOverview vybe usdTotal params =
     (case destructure params of
        Inl e \<Rightarrow> (Inl e, [])
      | Inr arg \<Rightarrow>
          let address = arg ''address'' in
          if \<not> truthy address then (Inl (invalidParams ''Wallet address is required''), [])
          else
            let a = the address;
                started = [WalletTokens a, WalletNfts a]
            in
            (case promiseAll (firstToReject vybe) [getWalletTokens vybe a, getWalletNfts vybe a] of
               Inl msg \<Rightarrow> (Inl (mcpError ''Error fetching Solana data: '' msg), started)
             | Inr results \<Rightarrow>
                 (case entriesOf ''tokensResult'' (results ! 0) of
                    Inl e \<Rightarrow> (Inl (mcpError ''Error fetching Solana data: '' (fmsg e)), started)
                  | Inr tokens \<Rightarrow>
                      (case entriesOf ''nftsResult'' (results ! 1) of
                         Inl e \<Rightarrow>
                           (Inl (mcpError ''Error fetching Solana data: '' (fmsg e)), started)
                       | Inr nfts \<Rightarrow>
                           (Inr (textContent
                                  (overviewText a (usdTotal tokens nfts) (length tokens) (length nfts))),
                            started)))))"

subsection \<open>\<^verbatim>\<open>handleSolanaCrossAnalysis\<close>\<close>

text \<open>
  \<^verbatim>\<open>tokensByMint\<close> maps a mint to its symbol and to \<^verbatim>\<open>holders\<close>, which maps an address to
  the amount and USD value held. Both are plain objects, so their keys are the texts of
  the values used as keys.
\<close>

datatype holding = Holding (amount: "json option") (usdValue: json)

datatype mint_entry = MintEntry (symbol: json) (holders: "(string \<times> holding) list")

type_synonym mints = "(string \<times> mint_entry) list"

definition orElse :: "json option \<Rightarrow> json \<Rightarrow> json" where
  "orElse v d = (if truthy v then the v else d)"

text \<open>
  The body of the inner \<^verbatim>\<open>forEach\<close> for one token of one address. A mint whose text
  is a name inherited from \<^verbatim>\<open>Object.prototype\<close> is found truthy although it was never
  entered, and the assignment to its \<^verbatim>\<open>holders\<close> throws. Assigning to the key
  \<^verbatim>\<open>__proto__\<close> creates no property.
\<close>

definition addToken :: "json \<Rightarrow> json \<Rightarrow> mints \<Rightarrow> fault + mints" where
  "addToken address token tokensByMint =
     (if token = JNull
      then Inl (typeError ''Cannot read properties of null (reading 'mintAddress')'')
      else
        let mint = textOf (getProp token ''mintAddress'') in
        if mint \<in> set protoNames
        then Inl (typeError (''Cannot set properties of undefined (setting ''
                              @ [CHR 0x27] @ toText address @ [CHR 0x27] @ '')''))
        else
          let entry = (case map_of tokensByMint mint of
                         Some e \<Rightarrow> e
                       | None \<Rightarrow> MintEntry (orElse (getProp token ''symbol'') (JStr ''Unknown'')) []);
              held = Holding (getProp token ''amount'') (orElse (getProp token ''valueUsd'') (JNum 0));
              holders' = (if toText address = ''__proto__'' then holders entry
                          else upsert (toText address) held (holders entry))
          in Inr (upsert mint (MintEntry (symbol entry) holders') tokensByMint))"

fun addTokens :: "json \<Rightarrow> json list \<Rightarrow> mints \<Rightarrow> fault + mints" where
  "addTokens address [] tokensByMint = Inr tokensByMint"
| "addTokens address (token # tokens) tokensByMint =
     (case addToken address token tokensByMint of
        Inl e \<Rightarrow> Inl e
      | Inr tokensByMint' \<Rightarrow> addTokens address tokens tokensByMint')"

text \<open>\<^verbatim>\<open>if(result?.data) { result.data.forEach(...) }\<close>\<close>

definition addResult :: "json \<Rightarrow> json \<Rightarrow> mints \<Rightarrow> fault + mints" where
  "addResult address result tokensByMint =
     (let data = (if result = JNull then None else getProp result ''data'') in
      if \<not> truthy data then Inr tokensByMint
      else (case data of
              Some (JArr tokens) \<Rightarrow> addTokens address tokens tokensByMint
            | _ \<Rightarrow> Inl (typeError ''result.data.forEach is not a function'')))"

fun addResults :: "(json \<times> json) list \<Rightarrow> mints \<Rightarrow> fault + mints" where
  "addResults [] tokensByMint = Inr tokensByMint"
| "addResults ((address, result) # rest) tokensByMint =
     (case addResult address result tokensByMint of
        Inl e \<Rightarrow> Inl e
      | Inr tokensByMint' \<Rightarrow> addResults rest tokensByMint')"

text \<open>\<^verbatim>\<open>addressNames[address] = `Wallet ${ index + 1 }`\<close>\<close>

fun nameAddresses :: "nat \<Rightarrow> json list \<Rightarrow> (string \<times> string) list \<Rightarrow> (string \<times> string) list" where
  "nameAddresses index [] names = names"
| "nameAddresses index (address # rest) names =
     nameAddresses (Suc index) rest
       (if toText address = ''__proto__'' then names
        else upsert (toText address) (''Wallet '' @ digits (Suc index)) names)"

definition holdersCount :: "string \<times> mint_entry \<Rightarrow> nat" where
  "holdersCount e = length (holders (snd e))"

text \<open>
  \<^verbatim>\<open>Array.prototype.sort\<close> is stable, and so is \<^const>\<open>sort_key\<close>; descending order of the
  count is ascending order of its negation.
\<close>

definition commonTokens :: "mints \<Rightarrow> mints" where
  "commonTokens tokensByMint =
     sort_key (\<lambda>e. - int (holdersCount e)) (filter (\<lambda>e. holdersCount e > 1) (ownEntries tokensByMint))"

text \<open>
  \<^verbatim>\<open>Number(x).toLocaleString()\<close> and the printing of \<^verbatim>\<open>Number(x)\<close> depend on floating
  point and on the locale; they are parameters.
\<close>

record formats =
  localeAmount :: "json option \<Rightarrow> string"
  usdNumber :: "json \<Rightarrow> string"

definition holderLine :: "formats \<Rightarrow> (string \<times> string) list \<Rightarrow> string \<times> holding \<Rightarrow> string" where
  "holderLine fmt addressNames h =
     [CHR 0x0A] @ ''   - ''
     @ (case map_of addressNames (fst h) of Some name \<Rightarrow> name | None \<Rightarrow> ''undefined'')
     @ '': '' @ localeAmount fmt (amount (snd h)) @ '' ($'' @ usdNumber fmt (usdValue (snd h)) @ '')''"

definition tokenBlock ::
  "formats \<Rightarrow> (string \<times> string) list \<Rightarrow> nat \<Rightarrow> nat \<times> string \<times> mint_entry \<Rightarrow> string" where
  "tokenBlock fmt addressNames wallets e =
     [CHR 0x0A] @ digits (fst e + 1) @ ''. '' @ toText (symbol (snd (snd e)))
     @ '' ('' @ digits (holdersCount (snd e)) @ ''/'' @ digits wallets @ '' wallets):''
     @ concat (map (holderLine fmt addressNames) (ownEntries (holders (snd (snd e)))))"

definition commonTokensData :: "formats \<Rightarrow> (string \<times> string) list \<Rightarrow> nat \<Rightarrow> mints \<Rightarrow> string" where
  "commonTokensData fmt addressNames wallets common =
     (if length common > 0
      then concat (map (tokenBlock fmt addressNames wallets) (enumerate 0 (take 10 common)))
      else [CHR 0x0A] @ ''No common tokens found between addresses'')"

definition crossText :: "nat \<Rightarrow> string \<Rightarrow> string" where
  "crossText wallets listing =
     ''Cross-analysis of '' @ digits wallets @ '' addresses:'' @ [CHR 0x0A]
     @ ''        '' @ [CHR 0x0A] @ ''Common tokens:'' @ listing"

definition isArray :: "json option \<Rightarrow> bool" where
  "isArray v = (case v of Some (JArr xs) \<Rightarrow> True | _ \<Rightarrow> False)"

definition arrayOf :: "json option \<Rightarrow> json list" where
  "arrayOf v = (case v of Some (JArr xs) \<Rightarrow> xs | _ \<Rightarrow> [])"

text \<open>
  \<^verbatim>\<open>VybeService.getWalletTokens\<close> throws, before it requests anything, when its address is
  falsy; inside \<^verbatim>\<open>addresses.map\<close> this ends the mapping, with the operations for the
  earlier addresses started.
\<close>

definition handleSolanaCrossAnalysis ::
  "client \<Rightarrow> formats \<Rightarrow> json option \<Rightarrow> (fault + json) \<times> call list" where
  "handleSolanaCrossAnalysis vybe fmt params =
     (case destructure params of
        Inl e \<Rightarrow> (Inl e, [])
      | Inr arg \<Rightarrow>
          let addresses = arg ''addresses'' in
          if \<not> truthy addresses \<or> \<not> isArray addresses \<or> length (arrayOf addresses) = 0
          then (Inl (invalidParams ''An array of addresses is required''), [])
          else
            let as = arrayOf addresses;
                started = map WalletTokens (takeWhile (\<lambda>a. truthy (Some a)) as)
            in
            if \<exists>a \<in> set as. \<not> truthy (Some a)
            then (Inl (mcpError ''Error in cross analysis: ''
                        ''ownerAddress parameter is required.''), started)
            else
              (case promiseAll (firstToReject vybe) (map (getWalletTokens vybe) as) of
                 Inl msg \<Rightarrow> (Inl (mcpError ''Error in cross analysis: '' msg), started)
               | Inr tokenResults \<Rightarrow>
                   (case addResults (zip as tokenResults) [] of
                      Inl e \<Rightarrow> (Inl (mcpError ''Error in cross analysis: '' (fmsg e)), started)
                    | Inr tokensByMint \<Rightarrow>
                        (Inr (textContent
                               (crossText (length as)
                                  (commonTokensData fmt (nameAddresses 0 as []) (length as)
                                     (commonTokens tokensByMint)))),
                         started))))"

section \<open>Dispatcher\<close>

subsection \<open>Requests and responses\<close>

text \<open>
  The fields the route reads from \<^verbatim>\<open>req.body\<close>, the JSON object of the request:
  \<^verbatim>\<open>{ jsonrpc, method, params, id }\<close>. A field the body does not have is \<open>None\<close>.
\<close>

record envelope =
  req_jsonrpc :: "json option"
  req_method :: "json option"
  req_params :: "json option"
  req_id :: "json option"

datatype payload = Result json | Error int string

record response =
  httpStatus :: int
  payload :: payload
  replyId :: "json option"

definition success :: "json \<Rightarrow> json option \<Rightarrow> response" where
  "success result ident = \<lparr>httpStatus = 200, payload = Result result, replyId = ident\<rparr>"

text \<open>
  The \<^verbatim>\<open>catch\<close> of the route: \<^verbatim>\<open>error.httpCode || 500\<close>, \<^verbatim>\<open>error.code || -32603\<close>,
  \<^verbatim>\<open>error.message || 'Internal server error'\<close>.
\<close>

definition failure :: "fault \<Rightarrow> json option \<Rightarrow> response" where
  "failure e ident =
     \<lparr>httpStatus = (case fhttp e of None \<Rightarrow> 500 | Some h \<Rightarrow> if h = 0 then 500 else h),
      payload = Error (case fcode e of None \<Rightarrow> - 32603 | Some c \<Rightarrow> if c = 0 then - 32603 else c)
                      (if fmsg e = [] then ''Internal server error'' else fmsg e),
      replyId = ident\<rparr>"

definition invalidRequest :: response where
  "invalidRequest =
     \<lparr>httpStatus = 400, payload = Error (- 32600) ''Invalid JSON-RPC request'', replyId = Some JNull\<rparr>"

definition methodNotFound :: "json \<Rightarrow> json option \<Rightarrow> response" where
  "methodNotFound method ident =
     \<lparr>httpStatus = 404,
      payload = Error (- 32601) (''Method '' @ [CHR 0x27] @ toText method @ [CHR 0x27] @ '' not found''),
      replyId = ident\<rparr>"

subsection \<open>\<^verbatim>\<open>method.includes\<close>\<close>

fun startsWith :: "string \<Rightarrow> string \<Rightarrow> bool" where
  "startsWith [] s = True"
| "startsWith (c # cs) [] = False"
| "startsWith (c # cs) (d # ds) = (c = d \<and> startsWith cs ds)"

fun includesText :: "string \<Rightarrow> string \<Rightarrow> bool" where
  "includesText sub [] = (sub = [])"
| "includesText sub (c # cs) = (startsWith sub (c # cs) \<or> includesText sub cs)"

text \<open>
  A string has \<^verbatim>\<open>includes\<close> for substrings, an array for elements (compared with
  \<^verbatim>\<open>===\<close>-like equality, so only a string element equals the string searched for); on any
  other truthy value the call throws.
\<close>

definition methodIncludes :: "json \<Rightarrow> string \<Rightarrow> fault + bool" where
  "methodIncludes method sub =
     (case method of
        JStr m \<Rightarrow> Inr (includesText sub m)
      | JArr xs \<Rightarrow> Inr (JStr sub \<in> set xs)
      | _ \<Rightarrow> Inl (typeError ''method.includes is not a function''))"

text \<open>\<^verbatim>\<open>!method.includes('_generate') && !method.includes('context')\<close>\<close>

definition cacheable :: "json \<Rightarrow> fault + bool" where
  "cacheable method =
     (case methodIncludes method ''_generate'' of
        Inl e \<Rightarrow> Inl e
      | Inr g \<Rightarrow>
          if g then Inr False
          else (case methodIncludes method ''context'' of Inl e \<Rightarrow> Inl e | Inr c \<Rightarrow> Inr (\<not> c)))"

text \<open>
  \<^verbatim>\<open>method.includes('_overview') || method.includes('_details') || method.includes('_holders')\<close>,
  evaluated only after the test above went through.
\<close>

definition highValue :: "json \<Rightarrow> bool" where
  "highValue method =
     (methodIncludes method ''_overview'' = Inr True \<or> methodIncludes method ''_details'' = Inr True
      \<or> methodIncludes method ''_holders'' = Inr True)"

subsection \<open>The two cache tiers and the server state\<close>

text \<open>
  Tier 1 is the \<^verbatim>\<open>NodeCache\<close> created with \<^verbatim>\<open>stdTTL: 120\<close>: \<^verbatim>\<open>set\<close> stores the value with
  the time, in milliseconds, at which it expires, and \<^verbatim>\<open>get\<close> does not return an expired
  entry. (The library also deletes expired entries, on lookup and every 60 seconds; an
  entry that is kept and never returned behaves the same.)
  Tier 2 is the Redis store, which holds texts and drops a key when its \<^verbatim>\<open>EX\<close> seconds
  have passed.
\<close>

record server =
  memoryCache :: "string \<rightharpoonup> json \<times> nat"
  redisStore :: "string \<rightharpoonup> string \<times> nat"
  contextStore :: context_store

definition stdTTL :: nat where
  "stdTTL = 120"

definition redisEX :: nat where
  "redisEX = 300"

definition memoryGet :: "(string \<rightharpoonup> json \<times> nat) \<Rightarrow> nat \<Rightarrow> string \<Rightarrow> json option" where
  "memoryGet cache time key =
     (case cache key of
        None \<Rightarrow> None
      | Some (v, expires) \<Rightarrow> if expires \<noteq> 0 \<and> expires < time then None else Some v)"

definition memorySet ::
  "(string \<rightharpoonup> json \<times> nat) \<Rightarrow> nat \<Rightarrow> string \<Rightarrow> json \<Rightarrow> (string \<rightharpoonup> json \<times> nat)" where
  "memorySet cache time key v = cache(key \<mapsto> (v, time + stdTTL * 1000))"

definition redisGet :: "(string \<rightharpoonup> string \<times> nat) \<Rightarrow> nat \<Rightarrow> string \<Rightarrow> string option" where
  "redisGet store time key =
     (case store key of
        None \<Rightarrow> None
      | Some (s, expires) \<Rightarrow> if expires \<le> time then None else Some s)"

definition redisSet ::
  "(string \<rightharpoonup> string \<times> nat) \<Rightarrow> nat \<Rightarrow> string \<Rightarrow> string \<Rightarrow> nat \<Rightarrow> (string \<rightharpoonup> string \<times> nat)" where
  "redisSet store time key s ex = store(key \<mapsto> (s, time + ex * 1000))"

text \<open>
  What one request meets outside the server state: the clock when the caches are
  consulted and when the result is stored; whether \<^verbatim>\<open>REDIS_URL\<close> was configured, whether
  the client is ready at either moment, and whether its \<^verbatim>\<open>get\<close> or \<^verbatim>\<open>set\<close> throws;
  \<^verbatim>\<open>JSON.parse\<close>, which throws on a text that is not JSON; the providers and the upstream
  client; the number formatting; and the fifteen handlers that read neither the caches
  nor the context store, each given by what it returns or throws.
\<close>

record environment =
  now :: nat
  later :: nat
  redisClient :: bool
  isReadyAtLookup :: bool
  isReadyAtStore :: bool
  redisGetThrows :: bool
  redisSetThrows :: bool
  jsonParse :: "string \<Rightarrow> json option"
  openaiProvider :: provider
  anthropicProvider :: provider
  vybeService :: client
  usdSum :: "json list \<Rightarrow> json list \<Rightarrow> string"
  numberFormats :: formats
  otherHandler :: "string \<Rightarrow> json option \<Rightarrow> fault + json"

text \<open>What a request does to its surroundings, in order.\<close>

datatype tier = Tier1 | Tier2

datatype event =
    CacheRead tier string
  | CacheWrite tier string nat
  | Handler string
  | ProviderCalls nat
  | Upstream call

subsection \<open>Cache lookup (lines 119 to 149)\<close>

definition lookup :: "environment \<Rightarrow> server \<Rightarrow> string \<Rightarrow> json option \<times> server \<times> event list" where
  "lookup env srv key =
     (let cachedResult = memoryGet (memoryCache srv) (now env) key in
      if truthy cachedResult then (cachedResult, srv, [CacheRead Tier1 key])
      else if redisClient env \<and> isReadyAtLookup env then
        (if redisGetThrows env then (None, srv, [CacheRead Tier1 key, CacheRead Tier2 key])
         else
           (case redisGet (redisStore srv) (now env) key of
              None \<Rightarrow> (None, srv, [CacheRead Tier1 key, CacheRead Tier2 key])
            | Some redisResult \<Rightarrow>
                if redisResult = [] then (None, srv, [CacheRead Tier1 key, CacheRead Tier2 key])
                else
                  (case jsonParse env redisResult of
                     None \<Rightarrow> (None, srv, [CacheRead Tier1 key, CacheRead Tier2 key])
                   | Some parsedResult \<Rightarrow>
                       (Some parsedResult,
                        srv\<lparr>memoryCache := memorySet (memoryCache srv) (later env) key parsedResult\<rparr>,
                        [CacheRead Tier1 key, CacheRead Tier2 key, CacheWrite Tier1 key stdTTL]))))
      else (None, srv, [CacheRead Tier1 key]))"

subsection \<open>Cache population (lines 226 to 239)\<close>

definition populate ::
  "environment \<Rightarrow> server \<Rightarrow> json \<Rightarrow> string \<Rightarrow> json \<Rightarrow> server \<times> event list" where
  "populate env srv method key result =
     (let srv1 = srv\<lparr>memoryCache := memorySet (memoryCache srv) (later env) key result\<rparr> in
      if redisClient env \<and> isReadyAtStore env \<and> highValue method then
        (if redisSetThrows env
         then (srv1, [CacheWrite Tier1 key stdTTL, CacheWrite Tier2 key redisEX])
         else (srv1\<lparr>redisStore :=
                      redisSet (redisStore srv1) (later env) key (stringify result) redisEX\<rparr>,
               [CacheWrite Tier1 key stdTTL, CacheWrite Tier2 key redisEX]))
      else (srv1, [CacheWrite Tier1 key stdTTL]))"

subsection \<open>The \<^verbatim>\<open>switch\<close> over the method (lines 153 to 224)\<close>

definition otherMethods :: "string list" where
  "otherMethods = [''solana_wallet_tokens'', ''solana_wallet_nfts'', ''solana_wallet_pnl'',
     ''solana_token_details'', ''solana_token_price'', ''solana_token_ohlc'',
     ''solana_token_holders'', ''solana_program_details'', ''solana_program_metrics'',
     ''solana_program_users'', ''solana_token_transfers'', ''solana_trades'',
     ''solana_whale_movements'', ''solana_market_sentiment'', ''solana_network_activity'']"

text \<open>
  The handler the method selects, run on the context store: its outcome, the store it
  leaves and what it called; \<open>None\<close> is the \<^verbatim>\<open>default\<close> branch. A method that is not a
  string equals none of the labels.
\<close>

definition route ::
  "environment \<Rightarrow> context_store \<Rightarrow> json \<Rightarrow> json option
    \<Rightarrow> ((fault + json) \<times> context_store \<times> event list) option" where
  "route env store method params =
     (case method of
        JStr m \<Rightarrow>
          if m = ''openai_generate'' then
            (case handleOpenAIGenerate (openaiProvider env) store params of
               (r, store', calls) \<Rightarrow> Some (r, store', [ProviderCalls calls]))
          else if m = ''anthropic_generate'' then
            (case handleAnthropicGenerate (anthropicProvider env) store params of
               (r, store', calls) \<Rightarrow> Some (r, store', [ProviderCalls calls]))
          else if m = ''clear_context'' then
            (case handleClearContext store params of (r, store') \<Rightarrow> Some (r, store', []))
          else if m = ''solana_wallet_overview'' then
            (case handleSolanaWalletOverview (vybeService env) (usdSum env) params of
               (r, started) \<Rightarrow> Some (r, store, map Upstream started))
          else if m = ''solana_cross_analysis'' then
            (case handleSolanaCrossAnalysis (vybeService env) (numberFormats env) params of
               (r, started) \<Rightarrow> Some (r, store, map Upstream started))
          else if m \<in> set otherMethods then Some (otherHandler env m params, store, [])
          else None
      | _ \<Rightarrow> None)"

subsection \<open>\<^verbatim>\<open>app.post('/mcp')\<close>\<close>

definition dispatch :: "environment \<Rightarrow> server \<Rightarrow> envelope \<Rightarrow> response \<times> server \<times> event list" where
  "dispatch env srv req =
     (if req_jsonrpc req \<noteq> Some (JStr ''2.0'') \<or> \<not> truthy (req_method req) \<or> \<not> truthy (req_id req)
      then (invalidRequest, srv, [])
      else
        let method = the (req_method req);
            params = req_params req;
            ident = req_id req
        in
        (case cacheable method of
           Inl e \<Rightarrow> (failure e ident, srv, [])
         | Inr cached \<Rightarrow>
             let key = cacheKey (toText method) params in
             (case (if cached then lookup env srv key else (None, srv, [])) of
                (Some hit, srv1, seen) \<Rightarrow> (success hit ident, srv1, seen)
              | (None, srv1, seen) \<Rightarrow>
                  (case route env (contextStore srv1) method params of
                     None \<Rightarrow> (methodNotFound method ident, srv1, seen)
                   | Some (Inl e, store', called) \<Rightarrow>
                       (failure e ident, srv1\<lparr>contextStore := store'\<rparr>,
                        seen @ Handler (toText method) # called)
                   | Some (Inr result, store', called) \<Rightarrow>
                       (case (if cached
                              then populate env (srv1\<lparr>contextStore := store'\<rparr>) method key result
                              else (srv1\<lparr>contextStore := store'\<rparr>, [])) of
                          (srv2, written) \<Rightarrow>
                            (success result ident, srv2,
                             seen @ Handler (toText method) # called @ written))))))"

definition lastN :: "nat \<Rightarrow> 'a list \<Rightarrow> 'a list" where
  "lastN n xs = rev (take n (rev xs))"

definition truncate_spec :: "turn list \<Rightarrow> turn list" where
  "truncate_spec turns = (if length turns > 10 then [hd turns] @ lastN 9 turns else turns)"

datatype family = OpenAI | Anthropic

fun generate ::
  "family \<Rightarrow> provider \<Rightarrow> context_store \<Rightarrow> json option \<Rightarrow> (fault + json) \<times> context_store \<times> nat" where
  "generate OpenAI = handleOpenAIGenerate"
| "generate Anthropic = handleAnthropicGenerate"

fun errorPrefix :: "family \<Rightarrow> string" where
  "errorPrefix OpenAI = ''OpenAI error: ''"
| "errorPrefix Anthropic = ''Anthropic error: ''"

fun defaultModel :: "family \<Rightarrow> json" where
  "defaultModel OpenAI = JStr ''gpt-4o''"
| "defaultModel Anthropic = JStr ''claude-3-5-sonnet-20240620''"

definition accepted :: "json option \<Rightarrow> string \<Rightarrow> json \<Rightarrow> bool" where
  "accepted params p sid \<longleftrightarrow>
     (case params of
        Some (JObj kvs) \<Rightarrow>
          map_of kvs ''prompt'' = Some (JStr p) \<and> p \<noteq> [] \<and>
          map_of kvs ''session_id'' = Some sid \<and> truthy (Some sid)
      | _ \<Rightarrow> False)"

definition priorTurns :: "context_store \<Rightarrow> json \<Rightarrow> turn list" where
  "priorTurns store sid = (case contextGet store sid of None \<Rightarrow> [] | Some ms \<Rightarrow> ms)"

definition paramOf :: "json option \<Rightarrow> string \<Rightarrow> json option" where
  "paramOf params name = (case params of Some (JObj kvs) \<Rightarrow> map_of kvs name | _ \<Rightarrow> None)"

definition sentRequest :: "family \<Rightarrow> context_store \<Rightarrow> json option \<Rightarrow> string \<Rightarrow> json \<Rightarrow> chat_request" where
  "sentRequest f store params p sid =
     \<lparr>model = orDefault (paramOf params ''model'') (defaultModel f),
      messages = priorTurns store sid @ [Turn User p],
      max_tokens = orDefault (paramOf params ''max_tokens'') (JNum 1000)\<rparr>"

text \<open>What a generative handler does with the way its loop was left.\<close>

definition conclude ::
  "string \<Rightarrow> string \<Rightarrow> context_store \<Rightarrow> json \<Rightarrow> turn list \<Rightarrow> loop_exit \<times> nat
    \<Rightarrow> (fault + json) \<times> context_store \<times> nat" where
  "conclude prefix unsetMsg store sid sent exit =
     (case exit of
        (Threw status msg, calls) \<Rightarrow> (Inl (mcpError prefix msg), store, calls)
      | (Unset, calls) \<Rightarrow>
          (Inl (mcpError prefix unsetMsg), store, calls)
      | (Got (Malformed msg), calls) \<Rightarrow> (Inl (mcpError prefix msg), store, calls)
      | (Got (Text t), calls) \<Rightarrow>
          (Inr (textContent t), store(sid \<mapsto> truncate_spec (sent @ [Turn Assistant t])), calls))"

definition unsetMessage :: "family \<Rightarrow> string" where
  "unsetMessage f = (case f of
      OpenAI \<Rightarrow> ''Cannot read properties of undefined (reading 'choices')''
    | Anthropic \<Rightarrow> ''Cannot read properties of undefined (reading 'content')'')"

definition threeAttempts :: "(nat \<Rightarrow> outcome) \<Rightarrow> loop_exit \<times> nat" where
  "threeAttempts create =
     (case create 0 of
        Resolved r \<Rightarrow> (Got r, 1)
      | Rejected s0 m0 \<Rightarrow>
          if \<not> retryable s0 then (Threw s0 m0, 1)
          else (case create 1 of
                  Resolved r \<Rightarrow> (Got r, 2)
                | Rejected s1 m1 \<Rightarrow>
                    if \<not> retryable s1 then (Threw s1 m1, 2)
                    else (case create 2 of
                            Resolved r \<Rightarrow> (Got r, 3)
                          | Rejected s2 m2 \<Rightarrow> (Threw s2 m2, 3))))"

subsection \<open>Notions for the dispatcher\<close>

definition request :: "string \<Rightarrow> json option \<Rightarrow> envelope" where
  "request m params =
     \<lparr>req_jsonrpc = Some (JStr ''2.0''), req_method = Some (JStr m), req_params = params,
      req_id = Some (JNum 1)\<rparr>"

fun cacheEvent :: "event \<Rightarrow> bool" where
  "cacheEvent (CacheRead t k) = True"
| "cacheEvent (CacheWrite t k ttl) = True"
| "cacheEvent e = False"

definition respond :: "fault + json \<Rightarrow> json option \<Rightarrow> response" where
  "respond r ident = (case r of Inl e \<Rightarrow> failure e ident | Inr v \<Rightarrow> success v ident)"

definition wellFormed :: "envelope \<Rightarrow> string \<Rightarrow> bool" where
  "wellFormed req m \<longleftrightarrow>
     req_jsonrpc req = Some (JStr ''2.0'') \<and> req_method req = Some (JStr m) \<and> m \<noteq> [] \<and>
     truthy (req_id req)"

definition tier2Eligible :: "environment \<Rightarrow> string \<Rightarrow> bool" where
  "tier2Eligible env m \<longleftrightarrow>
     redisClient env \<and> isReadyAtStore env \<and>
     (includesText ''_overview'' m \<or> includesText ''_details'' m \<or> includesText ''_holders'' m)"

definition observed ::
  "response \<times> server \<times> event list \<Rightarrow> response \<times> (string \<rightharpoonup> json \<times> nat) \<times> context_store" where
  "observed out = (fst out, memoryCache (fst (snd out)), contextStore (fst (snd out)))"

definition events :: "response \<times> server \<times> event list \<Rightarrow> event list" where
  "events out = snd (snd out)"

text \<open>The run of a request after the cache lookup.\<close>

definition afterLookup ::
  "environment \<Rightarrow> envelope \<Rightarrow> json option \<times> server \<times> event list \<Rightarrow> response \<times> server \<times> event list" where
  "afterLookup env req found =
     (let method = the (req_method req); params = req_params req; ident = req_id req;
          key = cacheKey (toText method) params
      in case found of
           (Some hit, srv1, seen) \<Rightarrow> (success hit ident, srv1, seen)
         | (None, srv1, seen) \<Rightarrow>
             (case route env (contextStore srv1) method params of
                None \<Rightarrow> (methodNotFound method ident, srv1, seen)
              | Some (Inl e, store', called) \<Rightarrow>
                  (failure e ident, srv1\<lparr>contextStore := store'\<rparr>,
                   seen @ Handler (toText method) # called)
              | Some (Inr result, store', called) \<Rightarrow>
                  (case (if cacheable method = Inr True
                         then populate env (srv1\<lparr>contextStore := store'\<rparr>) method key result
                         else (srv1\<lparr>contextStore := store'\<rparr>, [])) of
                     (srv2, written) \<Rightarrow>
                       (success result ident, srv2,
                        seen @ Handler (toText method) # called @ written))))"

definition sameHandlers :: "environment \<Rightarrow> environment \<Rightarrow> bool" where
  "sameHandlers env' env \<longleftrightarrow>
     openaiProvider env' = openaiProvider env \<and> anthropicProvider env' = anthropicProvider env \<and>
     vybeService env' = vybeService env \<and> usdSum env' = usdSum env \<and>
     numberFormats env' = numberFormats env \<and> otherHandler env' = otherHandler env \<and>
     later env' = later env \<and> now env' = now env \<and> jsonParse env' = jsonParse env"

subsection \<open>Notions for the cross-analysis\<close>

definition tokensOf :: "json \<Rightarrow> json list" where
  "tokensOf result =
     (let data = (if result = JNull then None else getProp result ''data'') in
      if truthy data then arrayOf data else [])"

definition mintOf :: "json \<Rightarrow> string" where
  "mintOf token = textOf (getProp token ''mintAddress'')"


text \<open>The addresses, as property keys, whose reply holds a token of the mint.\<close>

definition holdersOf :: "(json \<times> json) list \<Rightarrow> string \<Rightarrow> string set" where
  "holdersOf pairs mint =
     set (map (\<lambda>p. toText (fst p))
           (filter (\<lambda>p. toText (fst p) \<noteq> ''__proto__'' \<and> list_ex (\<lambda>t. mintOf t = mint) (tokensOf (snd p)))
              pairs))"







subsection \<open>Concrete inputs\<close>

definition nineTurns :: "turn list" where
  "nineTurns = [Turn User ''q0'', Turn Assistant ''a0'', Turn User ''q1'', Turn Assistant ''a1'',
     Turn User ''q2'', Turn Assistant ''a2'', Turn User ''q3'', Turn Assistant ''a3'', Turn User ''q4'']"

definition askParams :: "json option" where
  "askParams = Some (JObj [(''prompt'', JStr ''hi''), (''session_id'', JStr ''s1'')])"

definition emptyData :: json where
  "emptyData = JObj [(''data'', JArr [])]"


definition allUp :: client where
  "allUp = \<lparr>getWalletTokens = (\<lambda>a. Fulfilled emptyData),
            getWalletNfts = (\<lambda>a. Fulfilled emptyData), firstToReject = hd\<rparr>"

definition plainFormats :: formats where
  "plainFormats = \<lparr>localeAmount = textOf, usdNumber = toText\<rparr>"

definition exampleEnv :: environment where
  "exampleEnv =
     \<lparr>now = 1000, later = 2000, redisClient = True, isReadyAtLookup = True,
      isReadyAtStore = True, redisGetThrows = True, redisSetThrows = False,
      jsonParse = (\<lambda>s. None),
      openaiProvider = (\<lambda>req n. Resolved (Text ''yo'')),
      anthropicProvider = (\<lambda>req n. Rejected (Some 429) ''busy''),
      vybeService = allUp, usdSum = (\<lambda>tokens nfts. ''0''), numberFormats = plainFormats,
      otherHandler = (\<lambda>m params. Inr (textContent ''ok''))\<rparr>"

definition emptyServer :: server where
  "emptyServer = \<lparr>memoryCache = Map.empty, redisStore = Map.empty, contextStore = Map.empty\<rparr>"

definition walletParams :: "json option" where
  "walletParams = Some (JObj [(''address'', JStr ''A1'')])"

definition staleServer :: server where
  "staleServer =
     \<lparr>memoryCache = [cacheKey ''openai_generate'' askParams \<mapsto> (textContent ''stale'', 0)],
      redisStore = [cacheKey ''openai_generate'' askParams \<mapsto> (''stale'', 9000)],
      contextStore = Map.empty\<rparr>"

definition overviewRequest :: envelope where
  "overviewRequest = request ''solana_wallet_overview'' walletParams"

definition overviewKey :: string where
  "overviewKey = cacheKey ''solana_wallet_overview'' walletParams"

definition overviewResult :: json where
  "overviewResult = textContent (overviewText (JStr ''A1'') ''0'' 0 0)"





section \<open>Properties of the generative handlers\<close>

lemma lastN_sliceLast: "sliceLast n xs = lastN n xs"
  by (simp add: sliceLast_def lastN_def rev_take)

lemma stored_truncate:
  "(if length u > 10 then u ! 0 # sliceLast 9 u else u) = truncate_spec u"
  by (cases u) (simp_all add: truncate_spec_def lastN_sliceLast)


lemma truthy_Some: "truthy v \<Longrightarrow> \<exists>x. v = Some x"
  by (cases v) auto

lemma isString_Some: "isString v \<Longrightarrow> \<exists>s. v = Some (JStr s)"
  by (auto simp: isString_def split: option.splits json.splits)

lemma destructure_object:
  "destructure params = Inr arg \<Longrightarrow> arg name = Some v \<Longrightarrow>
   \<exists>kvs. params = Some (JObj kvs) \<and> arg = map_of kvs"
  by (auto simp: destructure_def split: option.splits json.splits)

lemma accepted_from_checks:
  assumes "destructure params = Inr arg"
    and "truthy (arg ''prompt'')" and "isString (arg ''prompt'')" and "truthy (arg ''session_id'')"
  shows "\<exists>p sid. accepted params p sid"
proof -
  from assms obtain s sid where s: "arg ''prompt'' = Some (JStr s)"
    and sid: "arg ''session_id'' = Some sid"
    using isString_Some truthy_Some by blast
  from assms(1) s obtain kvs where "params = Some (JObj kvs)" "arg = map_of kvs"
    using destructure_object by blast
  with s sid assms(2,4) have "accepted params s sid"
    by (auto simp: accepted_def)
  then show ?thesis by blast
qed

lemma openai_rejected:
  assumes "\<not> (\<exists>p sid. accepted params p sid)"
  shows "\<exists>e. handleOpenAIGenerate openai store params = (Inl e, store, 0)"
proof (cases "destructure params")
  case (Inl e)
  then show ?thesis by (simp add: handleOpenAIGenerate_def)
next
  case (Inr arg)
  with assms have "\<not> (truthy (arg ''prompt'') \<and> isString (arg ''prompt'') \<and> truthy (arg ''session_id''))"
    using accepted_from_checks by blast
  with Inr show ?thesis
    by (auto simp: handleOpenAIGenerate_def Let_def)
qed

lemma anthropic_rejected:
  assumes "\<not> (\<exists>p sid. accepted params p sid)"
  shows "\<exists>e. handleAnthropicGenerate anthropic store params = (Inl e, store, 0)"
proof (cases "destructure params")
  case (Inl e)
  then show ?thesis by (simp add: handleAnthropicGenerate_def)
next
  case (Inr arg)
  with assms have "\<not> (truthy (arg ''prompt'') \<and> isString (arg ''prompt'') \<and> truthy (arg ''session_id''))"
    using accepted_from_checks by blast
  with Inr show ?thesis
    by (auto simp: handleAnthropicGenerate_def Let_def)
qed

lemma accepted_object:
  assumes "accepted params p sid"
  obtains kvs where "params = Some (JObj kvs)" "map_of kvs ''prompt'' = Some (JStr p)" "p \<noteq> []"
    "map_of kvs ''session_id'' = Some sid" "truthy (Some sid)"
  using assms by (auto simp: accepted_def split: option.splits json.splits)

lemma openai_accepted:
  assumes "accepted params p sid"
  shows "handleOpenAIGenerate openai store params =
     conclude ''OpenAI error: ''
       ''Cannot read properties of undefined (reading 'choices')'' store sid
       (priorTurns store sid @ [Turn User p])
       (openaiLoop (openai (sentRequest OpenAI store params p sid)) 0 0)"
proof -
  from assms obtain kvs where kvs: "params = Some (JObj kvs)"
    "map_of kvs ''prompt'' = Some (JStr p)" "p \<noteq> []"
    "map_of kvs ''session_id'' = Some sid" "truthy (Some sid)"
    by (rule accepted_object)
  obtain exit calls where loop:
    "openaiLoop (openai (sentRequest OpenAI store params p sid)) 0 0 = (exit, calls)"
    by (cases "openaiLoop (openai (sentRequest OpenAI store params p sid)) 0 0")
  have d: "destructure params = Inr (map_of kvs)"
    by (simp add: kvs(1) destructure_def)
  have r: "\<lparr>model = orDefault (map_of kvs ''model'') (JStr ''gpt-4o''),
            messages = priorTurns store sid @ [Turn User p],
            max_tokens = orDefault (map_of kvs ''max_tokens'') (JNum 1000)\<rparr>
          = sentRequest OpenAI store params p sid"
    by (simp add: sentRequest_def paramOf_def kvs(1))
  show ?thesis
    unfolding handleOpenAIGenerate_def d
    using kvs(2-5)
    by (simp add: Let_def isString_def stringOf_def priorTurns_def[symmetric] r loop conclude_def
        contextSet_def stored_truncate
        split: loop_exit.splits reply.splits)
qed

lemma anthropic_accepted:
  assumes "accepted params p sid"
  shows "handleAnthropicGenerate anthropic store params =
     conclude ''Anthropic error: ''
       ''Cannot read properties of undefined (reading 'content')'' store sid
       (priorTurns store sid @ [Turn User p])
       (anthropicLoop (anthropic (sentRequest Anthropic store params p sid)) 0 0)"
proof -
  from assms obtain kvs where kvs: "params = Some (JObj kvs)"
    "map_of kvs ''prompt'' = Some (JStr p)" "p \<noteq> []"
    "map_of kvs ''session_id'' = Some sid" "truthy (Some sid)"
    by (rule accepted_object)
  obtain exit calls where loop:
    "anthropicLoop (anthropic (sentRequest Anthropic store params p sid)) 0 0 = (exit, calls)"
    by (cases "anthropicLoop (anthropic (sentRequest Anthropic store params p sid)) 0 0")
  have d: "destructure params = Inr (map_of kvs)"
    by (simp add: kvs(1) destructure_def)
  have r: "\<lparr>model = orDefault (map_of kvs ''model'') (JStr ''claude-3-5-sonnet-20240620''),
            messages = priorTurns store sid @ [Turn User p],
            max_tokens = orDefault (map_of kvs ''max_tokens'') (JNum 1000)\<rparr>
          = sentRequest Anthropic store params p sid"
    by (simp add: sentRequest_def paramOf_def kvs(1))
  show ?thesis
    unfolding handleAnthropicGenerate_def d
    using kvs(2-5)
    by (simp add: Let_def isString_def stringOf_def priorTurns_def[symmetric] r loop conclude_def
        contextSet_def stored_truncate
        split: loop_exit.splits reply.splits)
qed

lemma openaiLoop_cases:
  "openaiLoop create 0 0 =
     (case create 0 of
        Resolved r \<Rightarrow> (Got r, 1)
      | Rejected s0 m0 \<Rightarrow>
          if \<not> retryable s0 then (Threw s0 m0, 1)
          else (case create 1 of
                  Resolved r \<Rightarrow> (Got r, 2)
                | Rejected s1 m1 \<Rightarrow>
                    if \<not> retryable s1 then (Threw s1 m1, 2)
                    else (case create 2 of
                            Resolved r \<Rightarrow> (Got r, 3)
                          | Rejected s2 m2 \<Rightarrow> (Threw s2 m2, 3))))"
  by (simp add: openaiLoop.simps [of create] maxAttempts_def numeral_2_eq_2 numeral_3_eq_3
      split: outcome.splits)

lemma anthropicLoop_cases:
  "anthropicLoop create 0 0 =
     (case create 0 of
        Resolved r \<Rightarrow> (Got r, 1)
      | Rejected s0 m0 \<Rightarrow>
          if \<not> retryable s0 then (Threw s0 m0, 1)
          else (case create 1 of
                  Resolved r \<Rightarrow> (Got r, 2)
                | Rejected s1 m1 \<Rightarrow>
                    if \<not> retryable s1 then (Threw s1 m1, 2)
                    else (case create 2 of
                            Resolved r \<Rightarrow> (Got r, 3)
                          | Rejected s2 m2 \<Rightarrow> (Threw s2 m2, 3))))"
  by (simp add: anthropicLoop.simps [of create] maxAttempts_def numeral_2_eq_2 numeral_3_eq_3
      split: outcome.splits)



lemma generate_rejected:
  "\<not> (\<exists>p sid. accepted params p sid) \<Longrightarrow> \<exists>e. generate f P store params = (Inl e, store, 0)"
  by (cases f) (simp_all add: openai_rejected anthropic_rejected)

lemma generate_accepted:
  assumes "accepted params p sid"
  shows "generate f P store params =
     conclude (errorPrefix f) (unsetMessage f) store sid (priorTurns store sid @ [Turn User p])
       (threeAttempts (P (sentRequest f store params p sid)))"
  using assms
  by (cases f)
    (simp_all add: openai_accepted anthropic_accepted unsetMessage_def threeAttempts_def
      openaiLoop_cases anthropicLoop_cases)

lemma threeAttempts_calls: "snd (threeAttempts create) \<le> 3"
  by (simp add: threeAttempts_def split: outcome.splits)

lemma threeAttempts_not_Unset: "fst (threeAttempts create) \<noteq> Unset"
  by (simp add: threeAttempts_def split: outcome.splits)

lemma conclude_calls: "snd (snd (conclude pre um store sid sent exit)) = snd exit"
  by (simp add: conclude_def split: prod.splits loop_exit.splits reply.splits)

lemma conclude_failure:
  "conclude pre um store sid sent exit = (Inl e, store', calls) \<Longrightarrow> store' = store"
  by (auto simp: conclude_def split: prod.splits loop_exit.splits reply.splits)


section \<open>Properties of the dispatcher and the aggregating handlers\<close>

lemma cacheable_generate [simp]:
  "cacheable (JStr ''openai_generate'') = Inr False"
  "cacheable (JStr ''anthropic_generate'') = Inr False"
  "cacheable (JStr ''clear_context'') = Inr False"
  by (simp_all add: cacheable_def methodIncludes_def)

lemma dispatch_uncached:
  assumes "wellFormed req m" and "cacheable (JStr m) = Inr False"
  shows "dispatch env srv req =
     (case route env (contextStore srv) (JStr m) (req_params req) of
        None \<Rightarrow> (methodNotFound (JStr m) (req_id req), srv, [])
      | Some (r, store', called) \<Rightarrow>
          (respond r (req_id req), srv\<lparr>contextStore := store'\<rparr>, Handler m # called))"
  using assms
  by (auto simp: dispatch_def wellFormed_def respond_def split: option.splits sum.splits)

lemma threeAttempts_calls_pos: "1 \<le> snd (threeAttempts create)"
  by (simp add: threeAttempts_def split: outcome.splits)

lemma generate_accepted_calls:
  assumes "accepted params p sid"
  shows "1 \<le> snd (snd (generate f P store params))"
  using threeAttempts_calls_pos [of "P (sentRequest f store params p sid)"]
  by (simp add: generate_accepted [OF assms] conclude_calls)

lemma route_generative:
  "route env store (JStr ''openai_generate'') params =
     (case generate OpenAI (openaiProvider env) store params of
        (r, store', calls) \<Rightarrow> Some (r, store', [ProviderCalls calls]))"
  "route env store (JStr ''anthropic_generate'') params =
     (case generate Anthropic (anthropicProvider env) store params of
        (r, store', calls) \<Rightarrow> Some (r, store', [ProviderCalls calls]))"
  "route env store (JStr ''clear_context'') params =
     (case handleClearContext store params of (r, store') \<Rightarrow> Some (r, store', []))"
  by (simp_all add: route_def)

lemma highValue_string:
  "highValue (JStr m) \<longleftrightarrow>
     includesText ''_overview'' m \<or> includesText ''_details'' m \<or> includesText ''_holders'' m"
  by (simp add: highValue_def methodIncludes_def)

lemma lookup_miss_state: "lookup env srv key = (None, srv1, seen) \<Longrightarrow> srv1 = srv"
  by (auto simp: lookup_def Let_def split: if_splits option.splits)

lemma dispatch_cached:
  assumes "wellFormed req m" and "cacheable (JStr m) = Inr True"
  shows "dispatch env srv req =
     (let key = cacheKey m (req_params req) in
      case lookup env srv key of
        (Some hit, srv1, seen) \<Rightarrow> (success hit (req_id req), srv1, seen)
      | (None, srv1, seen) \<Rightarrow>
          (case route env (contextStore srv1) (JStr m) (req_params req) of
             None \<Rightarrow> (methodNotFound (JStr m) (req_id req), srv1, seen)
           | Some (Inl e, store', called) \<Rightarrow>
               (failure e (req_id req), srv1\<lparr>contextStore := store'\<rparr>, seen @ Handler m # called)
           | Some (Inr result, store', called) \<Rightarrow>
               (case populate env (srv1\<lparr>contextStore := store'\<rparr>) (JStr m) key result of
                  (srv2, written) \<Rightarrow>
                    (success result (req_id req), srv2, seen @ Handler m # called @ written))))"
  using assms
  by (auto simp: dispatch_def wellFormed_def Let_def split: prod.splits option.splits sum.splits)

lemma route_same:
  assumes "openaiProvider env' = openaiProvider env" "anthropicProvider env' = anthropicProvider env"
    "vybeService env' = vybeService env" "usdSum env' = usdSum env"
    "numberFormats env' = numberFormats env" "otherHandler env' = otherHandler env"
  shows "route env' store method params = route env store method params"
  using assms by (simp add: route_def split: json.splits)

lemma dispatch_afterLookup:
  "dispatch env srv req =
     (if req_jsonrpc req \<noteq> Some (JStr ''2.0'') \<or> \<not> truthy (req_method req) \<or> \<not> truthy (req_id req)
      then (invalidRequest, srv, [])
      else (case cacheable (the (req_method req)) of
              Inl e \<Rightarrow> (failure e (req_id req), srv, [])
            | Inr cached \<Rightarrow>
                afterLookup env req
                  (if cached
                   then lookup env srv (cacheKey (toText (the (req_method req))) (req_params req))
                   else (None, srv, []))))"
  by (auto simp: dispatch_def afterLookup_def Let_def split: sum.splits prod.splits option.splits)

lemma populate_observed:
  assumes "later env' = later env" "memoryCache s' = memoryCache s" "contextStore s' = contextStore s"
  shows "memoryCache (fst (populate env' s' method key result))
           = memoryCache (fst (populate env s method key result))"
    and "contextStore (fst (populate env' s' method key result))
           = contextStore (fst (populate env s method key result))"
  using assms by (simp_all add: populate_def Let_def)

lemma populate_events:
  assumes "redisClient env' = redisClient env" "isReadyAtStore env' = isReadyAtStore env"
  shows "snd (populate env' s' method key result) = snd (populate env s method key result)"
  using assms by (simp add: populate_def Let_def)

lemma afterLookup_observed:
  assumes "sameHandlers env' env" "memoryCache s' = memoryCache s" "contextStore s' = contextStore s"
  shows "observed (afterLookup env' req (x, s', ev')) = observed (afterLookup env req (x, s, ev))"
proof -
  from assms(1) have r: "\<And>store method params.
      route env' store method params = route env store method params"
    by (intro route_same) (simp_all add: sameHandlers_def)
  from assms(1) have l: "later env' = later env" by (simp add: sameHandlers_def)
  show ?thesis
  proof (cases x)
    case (Some hit)
    then show ?thesis using assms(2,3) by (simp add: afterLookup_def observed_def Let_def)
  next
    case None
    show ?thesis
    proof (cases "route env (contextStore s) (the (req_method req)) (req_params req)")
      case n: None
      with None show ?thesis
        using assms(2,3) by (simp add: afterLookup_def observed_def Let_def r)
    next
      case (Some t)
      obtain res store' called where t: "t = (res, store', called)" by (rule prod_cases3)
      show ?thesis
      proof (cases res)
        case (Inl e)
        with None Some t show ?thesis
          using assms(2,3) by (simp add: afterLookup_def observed_def Let_def r)
      next
        case (Inr result)
        have m: "memoryCache (s'\<lparr>contextStore := store'\<rparr>) = memoryCache (s\<lparr>contextStore := store'\<rparr>)"
          "contextStore (s'\<lparr>contextStore := store'\<rparr>) = contextStore (s\<lparr>contextStore := store'\<rparr>)"
          using assms(2) by simp_all
        note p = populate_observed [OF l m]
        from None Some t Inr show ?thesis
          using assms(2,3) p
          by (simp add: afterLookup_def observed_def Let_def r split_beta)
      qed
    qed
  qed
qed

lemma afterLookup_events:
  assumes "sameHandlers env' env" "contextStore s' = contextStore s"
    "redisClient env' = redisClient env" "isReadyAtStore env' = isReadyAtStore env"
  shows "events (afterLookup env' req (x, s', ev)) = events (afterLookup env req (x, s, ev))"
proof -
  from assms(1) have r: "\<And>store method params.
      route env' store method params = route env store method params"
    by (intro route_same) (simp_all add: sameHandlers_def)
  note p = populate_events [OF assms(3,4)]
  show ?thesis
    using assms(2) p
    by (auto simp: afterLookup_def events_def Let_def r split_beta split: option.splits sum.splits)
qed

lemma lookup_set_flag: "lookup (env\<lparr>redisSetThrows := b\<rparr>) srv key = lookup env srv key"
  by (auto simp: lookup_def Let_def split: option.splits)

lemma lookup_get_throws_unconfigured:
  assumes "redisGetThrows env"
  shows "\<exists>x ev ev'. lookup env srv key = (x, srv, ev) \<and>
           lookup (env\<lparr>redisClient := False\<rparr>) srv key = (x, srv, ev')"
  using assms by (auto simp: lookup_def Let_def split: option.splits)

lemma lookup_get_throws_missed:
  assumes "redisGetThrows env"
  shows "\<exists>x ev. lookup env srv key = (x, srv, ev) \<and>
           lookup (env\<lparr>redisGetThrows := False\<rparr>) (srv\<lparr>redisStore := (redisStore srv)(key := None)\<rparr>) key
             = (x, srv\<lparr>redisStore := (redisStore srv)(key := None)\<rparr>, ev)"
  using assms by (auto simp: lookup_def Let_def redisGet_def split: option.splits)

lemma sameHandlers_updates [simp]:
  "sameHandlers (env\<lparr>redisSetThrows := b\<rparr>) env"
  "sameHandlers (env\<lparr>redisGetThrows := b\<rparr>) env"
  "sameHandlers (env\<lparr>redisClient := b\<rparr>) env"
  "sameHandlers env env"
  by (simp_all add: sameHandlers_def)

lemma sameHandlers_trans_sym:
  "sameHandlers a c \<Longrightarrow> sameHandlers b c \<Longrightarrow> sameHandlers a b"
  by (simp add: sameHandlers_def)

lemma dispatch_observed:
  assumes "sameHandlers env' env" "memoryCache s' = memoryCache s" "contextStore s' = contextStore s"
    and "\<And>key. \<exists>x s1 s1' ev ev'. lookup env s key = (x, s1, ev) \<and> lookup env' s' key = (x, s1', ev')
           \<and> memoryCache s1' = memoryCache s1 \<and> contextStore s1' = contextStore s1"
  shows "observed (dispatch env' s' req) = observed (dispatch env s req)"
proof (cases "req_jsonrpc req \<noteq> Some (JStr ''2.0'') \<or> \<not> truthy (req_method req) \<or> \<not> truthy (req_id req)")
  case True
  then show ?thesis using assms(2,3) by (auto simp: dispatch_def observed_def)
next
  case False
  show ?thesis
  proof (cases "cacheable (the (req_method req))")
    case (Inl e)
    with False show ?thesis using assms(2,3) by (simp add: dispatch_afterLookup observed_def)
  next
    case (Inr cached)
    show ?thesis
    proof (cases cached)
      case True
      obtain x s1 s1' ev ev' where
        "lookup env s (cacheKey (toText (the (req_method req))) (req_params req)) = (x, s1, ev)"
        "lookup env' s' (cacheKey (toText (the (req_method req))) (req_params req)) = (x, s1', ev')"
        "memoryCache s1' = memoryCache s1" "contextStore s1' = contextStore s1"
        using assms(4) by blast
      with False Inr True show ?thesis
        using afterLookup_observed [OF assms(1)] by (simp add: dispatch_afterLookup)
    next
      case f: False
      with False Inr show ?thesis
        using afterLookup_observed [OF assms(1-3)] by (simp add: dispatch_afterLookup)
    qed
  qed
qed

lemma dispatch_events:
  assumes "sameHandlers env' env" "contextStore s' = contextStore s"
    "redisClient env' = redisClient env" "isReadyAtStore env' = isReadyAtStore env"
    and "\<And>key. \<exists>x s1 s1' ev. lookup env s key = (x, s1, ev) \<and> lookup env' s' key = (x, s1', ev)
           \<and> contextStore s1' = contextStore s1"
  shows "events (dispatch env' s' req) = events (dispatch env s req)"
proof (cases "req_jsonrpc req \<noteq> Some (JStr ''2.0'') \<or> \<not> truthy (req_method req) \<or> \<not> truthy (req_id req)")
  case True
  then show ?thesis by (auto simp: dispatch_def events_def)
next
  case False
  show ?thesis
  proof (cases "cacheable (the (req_method req))")
    case (Inl e)
    with False show ?thesis by (simp add: dispatch_afterLookup events_def)
  next
    case (Inr cached)
    show ?thesis
    proof (cases cached)
      case True
      obtain x s1 s1' ev where
        "lookup env s (cacheKey (toText (the (req_method req))) (req_params req)) = (x, s1, ev)"
        "lookup env' s' (cacheKey (toText (the (req_method req))) (req_params req)) = (x, s1', ev)"
        "contextStore s1' = contextStore s1"
        using assms(5) by blast
      with False Inr True show ?thesis
        using afterLookup_events [OF assms(1) _ assms(3,4)] by (simp add: dispatch_afterLookup)
    next
      case f: False
      with False Inr show ?thesis
        using afterLookup_events [OF assms(1-4)] by (simp add: dispatch_afterLookup)
    qed
  qed
qed




lemma overview_wellFormed: "wellFormed overviewRequest ''solana_wallet_overview''"
  by (simp add: wellFormed_def overviewRequest_def request_def)

lemma overview_cacheable: "cacheable (JStr ''solana_wallet_overview'') = Inr True"
  by (simp add: cacheable_def methodIncludes_def)

lemma overview_route:
  "vybeService env = allUp \<Longrightarrow> usdSum env = (\<lambda>tokens nfts. ''0'') \<Longrightarrow>
   route env store (JStr ''solana_wallet_overview'') walletParams =
     Some (Inr overviewResult, store,
           [Upstream (WalletTokens (JStr ''A1'')), Upstream (WalletNfts (JStr ''A1''))])"
  by (simp add: route_def handleSolanaWalletOverview_def walletParams_def destructure_def
      Let_def allUp_def promiseAll_def entriesOf_def dataOf_def getProp_def emptyData_def
      overviewResult_def)

section \<open>Properties of the cross-analysis merge\<close>

















lemma holdersOf_Nil [simp]: "holdersOf [] mint = {}"
  by (simp add: holdersOf_def)



















lemma payloads_fulfilled:
  assumes "\<forall>a \<in> set as. \<exists>v. g a = Fulfilled v"
  shows "map g as = map Fulfilled (payloads (map g as))"
  using assms
proof (induction as)
  case Nil
  then show ?case by simp
next
  case (Cons a as)
  then obtain v where "g a = Fulfilled v" by auto
  with Cons show ?case by simp
qed








text \<open>
  Claim C2. A generative call (\<^verbatim>\<open>openai_generate\<close>, \<^verbatim>\<open>anthropic_generate\<close>) invokes its
  provider at most 3 times. For accepted parameters: a rejection whose status is not
  retryable ends the call at once, with the provider's message under the handler's prefix
  and code \<open>-32000\<close>, after one invocation when it is the first rejection and after two
  when it follows one retryable rejection; a rejection with status 429 or at least 500
  is followed by another invocation as long as fewer than 3 were made; the third rejection
  is propagated whatever its status.
\<close>

theorem generate_retry_ceiling:
  "snd (snd (generate f P store params)) \<le> 3 \<and>
   (\<forall>p sid. accepted params p sid \<longrightarrow>
      (let out = P (sentRequest f store params p sid);
           res = generate f P store params;
           failed = (\<lambda>m n. res = (Inl (mcpError (errorPrefix f) m), store, n))
       in (\<forall>s m. out 0 = Rejected s m \<and> \<not> retryable s \<longrightarrow> failed m 1) \<and>
          (\<forall>s0 m0. out 0 = Rejected s0 m0 \<and> retryable s0 \<longrightarrow>
             2 \<le> snd (snd res) \<and>
             (\<forall>s m. out 1 = Rejected s m \<and> \<not> retryable s \<longrightarrow> failed m 2) \<and>
             (\<forall>s1 m1. out 1 = Rejected s1 m1 \<and> retryable s1 \<longrightarrow>
                snd (snd res) = 3 \<and>
                (\<forall>s m. out 2 = Rejected s m \<longrightarrow> failed m 3)))))"
proof (intro conjI allI impI)
  show "snd (snd (generate f P store params)) \<le> 3"
  proof (cases "\<exists>p sid. accepted params p sid")
    case True
    then show ?thesis
      by (auto simp: generate_accepted conclude_calls threeAttempts_calls)
  next
    case False
    then obtain e where "generate f P store params = (Inl e, store, 0)"
      using generate_rejected by blast
    then show ?thesis by simp
  qed
next
  fix p sid
  assume a: "accepted params p sid"
  show "let out = P (sentRequest f store params p sid);
            res = generate f P store params;
            failed = (\<lambda>m n. res = (Inl (mcpError (errorPrefix f) m), store, n))
        in (\<forall>s m. out 0 = Rejected s m \<and> \<not> retryable s \<longrightarrow> failed m 1) \<and>
           (\<forall>s0 m0. out 0 = Rejected s0 m0 \<and> retryable s0 \<longrightarrow>
              2 \<le> snd (snd res) \<and>
              (\<forall>s m. out 1 = Rejected s m \<and> \<not> retryable s \<longrightarrow> failed m 2) \<and>
              (\<forall>s1 m1. out 1 = Rejected s1 m1 \<and> retryable s1 \<longrightarrow>
                 snd (snd res) = 3 \<and>
                 (\<forall>s m. out 2 = Rejected s m \<longrightarrow> failed m 3)))"
    unfolding Let_def generate_accepted [OF a]
    by (auto simp: threeAttempts_def conclude_def split: outcome.splits reply.splits)
qed

theorem generate_retry_ceiling_witness:
  "accepted askParams ''hi'' (JStr ''s1'') \<and>
   generate OpenAI (\<lambda>req n. Rejected (Some 429) ''busy'') Map.empty askParams
     = (Inl (mcpError ''OpenAI error: '' ''busy''), Map.empty, 3) \<and>
   generate Anthropic (\<lambda>req n. Rejected (Some 400) ''bad request'') Map.empty askParams
     = (Inl (mcpError ''Anthropic error: '' ''bad request''), Map.empty, 1)"
proof -
  have a: "accepted askParams ''hi'' (JStr ''s1'')"
    by (simp add: askParams_def accepted_def)
  have 1: "generate OpenAI (\<lambda>req n. Rejected (Some 429) ''busy'') Map.empty askParams
     = (Inl (mcpError ''OpenAI error: '' ''busy''), Map.empty, 3)"
    using generate_retry_ceiling [where f = OpenAI and P = "\<lambda>req n. Rejected (Some 429) ''busy''"
        and store = Map.empty and params = askParams, THEN conjunct2, rule_format, OF a]
    by (simp add: Let_def retryable_def)
  have 2: "generate Anthropic (\<lambda>req n. Rejected (Some 400) ''bad request'') Map.empty askParams
     = (Inl (mcpError ''Anthropic error: '' ''bad request''), Map.empty, 1)"
    using generate_retry_ceiling [where f = Anthropic
        and P = "\<lambda>req n. Rejected (Some 400) ''bad request''"
        and store = Map.empty and params = askParams, THEN conjunct2, rule_format, OF a]
    by (simp add: Let_def retryable_def)
  from a 1 2 show ?thesis by simp
qed



text \<open>
  Claim C4. A request without \<^verbatim>\<open>method\<close> (absent, or present with a falsy value), or
  whose \<^verbatim>\<open>jsonrpc\<close> field is not the string \<^verbatim>\<open>2.0\<close>, is answered with status 400 and error code \<open>-32600\<close>; the server state is
  the one before the request and nothing happened in between: no cache tier was read or
  written and no handler ran.
\<close>

theorem invalid_envelope_rejected:
  assumes "\<not> truthy (req_method req) \<or> req_jsonrpc req \<noteq> Some (JStr ''2.0'')"
  shows "dispatch env srv req =
           (\<lparr>httpStatus = 400, payload = Error (- 32600) ''Invalid JSON-RPC request'',
             replyId = Some JNull\<rparr>, srv, [])"
  using assms by (auto simp: dispatch_def invalidRequest_def)

theorem invalid_envelope_rejected_witness:
  "dispatch exampleEnv emptyServer
     \<lparr>req_jsonrpc = Some (JStr ''2.0''), req_method = None, req_params = walletParams,
      req_id = Some (JNum 7)\<rparr>
   = (\<lparr>httpStatus = 400, payload = Error (- 32600) ''Invalid JSON-RPC request'',
       replyId = Some JNull\<rparr>, emptyServer, []) \<and>
   dispatch exampleEnv emptyServer
     \<lparr>req_jsonrpc = Some (JStr ''1.0''), req_method = Some (JStr ''solana_wallet_overview''),
      req_params = walletParams, req_id = Some (JNum 7)\<rparr>
   = (\<lparr>httpStatus = 400, payload = Error (- 32600) ''Invalid JSON-RPC request'',
       replyId = Some JNull\<rparr>, emptyServer, [])"
  using invalid_envelope_rejected [of "\<lparr>req_jsonrpc = Some (JStr ''2.0''), req_method = None,
        req_params = walletParams, req_id = Some (JNum 7)\<rparr>" exampleEnv emptyServer]
    invalid_envelope_rejected [of "\<lparr>req_jsonrpc = Some (JStr ''1.0''),
        req_method = Some (JStr ''solana_wallet_overview''),
        req_params = walletParams, req_id = Some (JNum 7)\<rparr>" exampleEnv emptyServer]
  by simp





text \<open>
  Claim C7. A failure of tier 2 never shows in the answer. Whether \<^verbatim>\<open>redisClient.set\<close>
  throws or not, the response, the events, tier 1 and the context store are the same. When
  \<^verbatim>\<open>redisClient.get\<close> throws, the response, tier 1 and the context store are those of a
  server without tier 2, and the request runs, event by event, as it does when the read
  succeeds and finds no entry under the key.
\<close>

theorem tier2_failure_is_silent:
  "observed (dispatch (env\<lparr>redisSetThrows := True\<rparr>) srv req)
     = observed (dispatch (env\<lparr>redisSetThrows := False\<rparr>) srv req) \<and>
   events (dispatch (env\<lparr>redisSetThrows := True\<rparr>) srv req)
     = events (dispatch (env\<lparr>redisSetThrows := False\<rparr>) srv req) \<and>
   (redisGetThrows env \<longrightarrow>
      observed (dispatch env srv req) = observed (dispatch (env\<lparr>redisClient := False\<rparr>) srv req) \<and>
      (let key = cacheKey (textOf (req_method req)) (req_params req);
           missed = srv\<lparr>redisStore := (redisStore srv)(key := None)\<rparr>;
           out = dispatch (env\<lparr>redisGetThrows := False\<rparr>) missed req
       in observed (dispatch env srv req) = observed out \<and> events (dispatch env srv req) = events out))"
proof (intro conjI impI)
  have h: "sameHandlers (env\<lparr>redisSetThrows := True\<rparr>) (env\<lparr>redisSetThrows := False\<rparr>)"
    by (simp add: sameHandlers_def)
  have l: "\<And>key. lookup (env\<lparr>redisSetThrows := True\<rparr>) srv key
                = lookup (env\<lparr>redisSetThrows := False\<rparr>) srv key"
    by (simp add: lookup_set_flag)
  show "observed (dispatch (env\<lparr>redisSetThrows := True\<rparr>) srv req)
     = observed (dispatch (env\<lparr>redisSetThrows := False\<rparr>) srv req)"
  proof (rule dispatch_observed [OF h])
    fix key
    obtain x s1 ev where "lookup (env\<lparr>redisSetThrows := False\<rparr>) srv key = (x, s1, ev)"
      by (rule prod_cases3)
    then show "\<exists>x s1 s1' ev ev'. lookup (env\<lparr>redisSetThrows := False\<rparr>) srv key = (x, s1, ev)
        \<and> lookup (env\<lparr>redisSetThrows := True\<rparr>) srv key = (x, s1', ev')
        \<and> memoryCache s1' = memoryCache s1 \<and> contextStore s1' = contextStore s1"
      by (simp add: l)
  qed simp_all
  show "events (dispatch (env\<lparr>redisSetThrows := True\<rparr>) srv req)
     = events (dispatch (env\<lparr>redisSetThrows := False\<rparr>) srv req)"
  proof (rule dispatch_events [OF h])
    fix key
    obtain x s1 ev where "lookup (env\<lparr>redisSetThrows := False\<rparr>) srv key = (x, s1, ev)"
      by (rule prod_cases3)
    then show "\<exists>x s1 s1' ev. lookup (env\<lparr>redisSetThrows := False\<rparr>) srv key = (x, s1, ev)
        \<and> lookup (env\<lparr>redisSetThrows := True\<rparr>) srv key = (x, s1', ev)
        \<and> contextStore s1' = contextStore s1"
      by (simp add: l)
  qed simp_all
next
  assume g: "redisGetThrows env"
  have "observed (dispatch (env\<lparr>redisClient := False\<rparr>) srv req) = observed (dispatch env srv req)"
  proof (rule dispatch_observed)
    fix key
    show "\<exists>x s1 s1' ev ev'. lookup env srv key = (x, s1, ev)
        \<and> lookup (env\<lparr>redisClient := False\<rparr>) srv key = (x, s1', ev')
        \<and> memoryCache s1' = memoryCache s1 \<and> contextStore s1' = contextStore s1"
      using lookup_get_throws_unconfigured [OF g, of srv key] by auto
  qed simp_all
  then show "observed (dispatch env srv req) = observed (dispatch (env\<lparr>redisClient := False\<rparr>) srv req)"
    by simp
next
  assume g: "redisGetThrows env"
  define key where "key = cacheKey (textOf (req_method req)) (req_params req)"
  define missed where "missed = srv\<lparr>redisStore := (redisStore srv)(key := None)\<rparr>"
  have lk: "\<And>k. k = key \<Longrightarrow> \<exists>x ev. lookup env srv k = (x, srv, ev) \<and>
      lookup (env\<lparr>redisGetThrows := False\<rparr>) missed k = (x, missed, ev)"
    unfolding missed_def using lookup_get_throws_missed [OF g] by blast
  have o: "observed (dispatch (env\<lparr>redisGetThrows := False\<rparr>) missed req) = observed (dispatch env srv req)"
  proof (cases "truthy (req_method req)")
    case False
    then show ?thesis by (simp add: dispatch_def observed_def missed_def)
  next
    case True
    then have k: "cacheKey (toText (the (req_method req))) (req_params req) = key"
      by (cases "req_method req") (simp_all add: key_def textOf_def)
    obtain x ev where
      "lookup env srv key = (x, srv, ev)"
      "lookup (env\<lparr>redisGetThrows := False\<rparr>) missed key = (x, missed, ev)"
      using lk by blast
    then show ?thesis
      using afterLookup_observed [of "env\<lparr>redisGetThrows := False\<rparr>" env missed srv]
      by (simp add: dispatch_afterLookup k missed_def split: sum.splits)
        (auto simp: observed_def)
  qed
  have e: "events (dispatch (env\<lparr>redisGetThrows := False\<rparr>) missed req) = events (dispatch env srv req)"
  proof (cases "truthy (req_method req)")
    case False
    then show ?thesis by (simp add: dispatch_def events_def missed_def)
  next
    case True
    then have k: "cacheKey (toText (the (req_method req))) (req_params req) = key"
      by (cases "req_method req") (simp_all add: key_def textOf_def)
    obtain x ev where
      "lookup env srv key = (x, srv, ev)"
      "lookup (env\<lparr>redisGetThrows := False\<rparr>) missed key = (x, missed, ev)"
      using lk by blast
    then show ?thesis
      using afterLookup_events [of "env\<lparr>redisGetThrows := False\<rparr>" env missed srv]
      by (simp add: dispatch_afterLookup k missed_def split: sum.splits)
        (auto simp: events_def)
  qed
  from o e show "let key = cacheKey (textOf (req_method req)) (req_params req);
           missed = srv\<lparr>redisStore := (redisStore srv)(key := None)\<rparr>;
           out = dispatch (env\<lparr>redisGetThrows := False\<rparr>) missed req
       in observed (dispatch env srv req) = observed out \<and> events (dispatch env srv req) = events out"
    by (simp add: Let_def key_def missed_def)
qed

theorem tier2_failure_is_silent_witness:
  "redisGetThrows exampleEnv \<and>
   observed (dispatch exampleEnv emptyServer overviewRequest)
     = observed (dispatch (exampleEnv\<lparr>redisClient := False\<rparr>) emptyServer overviewRequest) \<and>
   fst (dispatch (exampleEnv\<lparr>redisClient := False\<rparr>) emptyServer overviewRequest)
     = success overviewResult (Some (JNum 1))"
proof -
  have g: "redisGetThrows exampleEnv" by (simp add: exampleEnv_def)
  have l: "lookup (exampleEnv\<lparr>redisClient := False\<rparr>) emptyServer
             (cacheKey ''solana_wallet_overview'' (req_params overviewRequest))
     = (None, emptyServer, [CacheRead Tier1 overviewKey])"
    by (simp add: lookup_def exampleEnv_def emptyServer_def memoryGet_def
        overviewKey_def overviewRequest_def request_def)
  have r: "route (exampleEnv\<lparr>redisClient := False\<rparr>) (contextStore emptyServer)
      (JStr ''solana_wallet_overview'') (req_params overviewRequest) =
     Some (Inr overviewResult, contextStore emptyServer,
           [Upstream (WalletTokens (JStr ''A1'')), Upstream (WalletNfts (JStr ''A1''))])"
    unfolding overviewRequest_def request_def
    by (simp, rule overview_route) (simp_all add: exampleEnv_def)
  have "fst (dispatch (exampleEnv\<lparr>redisClient := False\<rparr>) emptyServer overviewRequest)
     = success overviewResult (Some (JNum 1))"
    unfolding dispatch_cached [OF overview_wellFormed overview_cacheable] Let_def l
    by (simp add: r split_beta) (simp add: overviewRequest_def request_def)
  with g tier2_failure_is_silent [of exampleEnv emptyServer overviewRequest]
  show ?thesis by simp
qed

text \<open>
  Claim C8. For a well-formed request of \<^verbatim>\<open>openai_generate\<close>, \<^verbatim>\<open>anthropic_generate\<close> or
  \<^verbatim>\<open>clear_context\<close>, in any server state (so also the state a first, identical request
  left): the handler runs and the answer is made from its outcome; no cache tier is read
  or written, and both tiers are left as they were; a generative handler whose parameters
  are accepted invokes its provider at least once.
\<close>

theorem generative_methods_bypass_cache:
  assumes "wellFormed req m"
    and "m = ''openai_generate'' \<or> m = ''anthropic_generate'' \<or> m = ''clear_context''"
  shows "\<exists>r store' called.
           route env (contextStore srv) (JStr m) (req_params req) = Some (r, store', called) \<and>
           dispatch env srv req =
             (respond r (req_id req), srv\<lparr>contextStore := store'\<rparr>, Handler m # called) \<and>
           (\<forall>e \<in> set (Handler m # called). \<not> cacheEvent e) \<and>
           (\<forall>p sid. m \<noteq> ''clear_context'' \<and> accepted (req_params req) p sid \<longrightarrow>
              (\<exists>n\<ge>1. called = [ProviderCalls n]))"
proof -
  from assms(2) have c: "cacheable (JStr m) = Inr False"
    by auto
  note d = dispatch_uncached [OF assms(1) c, of env srv]
  from assms(2) consider (o) "m = ''openai_generate''" | (a) "m = ''anthropic_generate''"
    | (c) "m = ''clear_context''" by blast
  then show ?thesis
  proof cases
    case o
    obtain r store' calls where g:
      "generate OpenAI (openaiProvider env) (contextStore srv) (req_params req) = (r, store', calls)"
      by (rule prod_cases3)
    have "\<forall>p sid. accepted (req_params req) p sid \<longrightarrow> 1 \<le> calls"
      using generate_accepted_calls [of "req_params req" _ _ OpenAI "openaiProvider env" "contextStore srv"] g
      by auto
    with o g d show ?thesis
      by (simp add: route_generative)
  next
    case a
    obtain r store' calls where g:
      "generate Anthropic (anthropicProvider env) (contextStore srv) (req_params req) = (r, store', calls)"
      by (rule prod_cases3)
    have "\<forall>p sid. accepted (req_params req) p sid \<longrightarrow> 1 \<le> calls"
      using generate_accepted_calls [of "req_params req" _ _ Anthropic "anthropicProvider env" "contextStore srv"] g
      by auto
    with a g d show ?thesis
      by (simp add: route_generative)
  next
    case c
    obtain r store' where g: "handleClearContext (contextStore srv) (req_params req) = (r, store')"
      by (rule prod.exhaust)
    with c d show ?thesis
      by (simp add: route_generative)
  qed
qed

theorem generative_methods_bypass_cache_witness:
  "wellFormed (request ''openai_generate'' askParams) ''openai_generate'' \<and>
   accepted askParams ''hi'' (JStr ''s1'') \<and>
   (\<exists>r store' n. 1 \<le> n \<and>
      dispatch exampleEnv staleServer (request ''openai_generate'' askParams) =
        (respond r (Some (JNum 1)), staleServer\<lparr>contextStore := store'\<rparr>,
         [Handler ''openai_generate'', ProviderCalls n]))"
proof -
  have w: "wellFormed (request ''openai_generate'' askParams) ''openai_generate''"
    by (simp add: wellFormed_def request_def)
  have a: "accepted askParams ''hi'' (JStr ''s1'')"
    by (simp add: askParams_def accepted_def)
  from generative_methods_bypass_cache [OF w, of exampleEnv staleServer] a
  have "\<exists>r store' n. 1 \<le> n \<and>
      dispatch exampleEnv staleServer (request ''openai_generate'' askParams) =
        (respond r (Some (JNum 1)), staleServer\<lparr>contextStore := store'\<rparr>,
         [Handler ''openai_generate'', ProviderCalls n])"
    by (auto simp: request_def)
  with w a show ?thesis by blast
qed

text \<open>
  Claim C9. When a cacheable method misses both tiers and its handler succeeds, the result
  is stored in tier 1 with the default TTL of 120 seconds; a write to tier 2, with an
  expiry of 300 seconds, is issued exactly when Redis is configured and ready and the
  method name contains \<^verbatim>\<open>_overview\<close>, \<^verbatim>\<open>_details\<close> or \<^verbatim>\<open>_holders\<close>, and the entry is in
  tier 2 afterwards unless that write throws.
\<close>

theorem full_miss_populates:
  assumes "wellFormed req m" and "cacheable (JStr m) = Inr True"
    and "lookup env srv (cacheKey m (req_params req)) = (None, srv1, seen)"
    and "route env (contextStore srv) (JStr m) (req_params req) = Some (Inr result, store', called)"
  shows "\<exists>srv' written.
           dispatch env srv req =
             (success result (req_id req), srv', seen @ Handler m # called @ written) \<and>
           memoryCache srv' =
             (memoryCache srv)(cacheKey m (req_params req) \<mapsto> (result, later env + 120 * 1000)) \<and>
           written =
             (if tier2Eligible env m
              then [CacheWrite Tier1 (cacheKey m (req_params req)) 120,
                    CacheWrite Tier2 (cacheKey m (req_params req)) 300]
              else [CacheWrite Tier1 (cacheKey m (req_params req)) 120]) \<and>
           redisStore srv' =
             (if tier2Eligible env m \<and> \<not> redisSetThrows env
              then (redisStore srv)(cacheKey m (req_params req) \<mapsto>
                     (stringify result, later env + 300 * 1000))
              else redisStore srv) \<and>
           contextStore srv' = store' \<and> stdTTL < redisEX"
proof -
  from assms(3) have s: "srv1 = srv" by (rule lookup_miss_state)
  show ?thesis
    unfolding dispatch_cached [OF assms(1,2)] Let_def assms(3) s
    using assms(4)
    by (auto simp: populate_def Let_def tier2Eligible_def highValue_string memorySet_def
        redisSet_def stdTTL_def redisEX_def)
qed

theorem full_miss_populates_witness:
  "lookup (exampleEnv\<lparr>redisGetThrows := False\<rparr>) emptyServer overviewKey
     = (None, emptyServer, [CacheRead Tier1 overviewKey, CacheRead Tier2 overviewKey]) \<and>
   (\<exists>srv'. dispatch (exampleEnv\<lparr>redisGetThrows := False\<rparr>) emptyServer overviewRequest =
        (success overviewResult (Some (JNum 1)), srv',
         [CacheRead Tier1 overviewKey, CacheRead Tier2 overviewKey,
          Handler ''solana_wallet_overview'',
          Upstream (WalletTokens (JStr ''A1'')), Upstream (WalletNfts (JStr ''A1'')),
          CacheWrite Tier1 overviewKey 120, CacheWrite Tier2 overviewKey 300]) \<and>
      memoryCache srv' = [overviewKey \<mapsto> (overviewResult, 122000)] \<and>
      redisStore srv' = [overviewKey \<mapsto> (stringify overviewResult, 302000)])"
proof -
  let ?env = "exampleEnv\<lparr>redisGetThrows := False\<rparr>"
  have p: "req_params overviewRequest = walletParams" "req_id overviewRequest = Some (JNum 1)"
    by (simp_all add: overviewRequest_def request_def)
  have l: "lookup ?env emptyServer (cacheKey ''solana_wallet_overview'' (req_params overviewRequest))
     = (None, emptyServer, [CacheRead Tier1 overviewKey, CacheRead Tier2 overviewKey])"
    by (simp add: p lookup_def exampleEnv_def emptyServer_def memoryGet_def redisGet_def
        overviewKey_def)
  have r: "route ?env (contextStore emptyServer) (JStr ''solana_wallet_overview'')
      (req_params overviewRequest) =
     Some (Inr overviewResult, contextStore emptyServer,
           [Upstream (WalletTokens (JStr ''A1'')), Upstream (WalletNfts (JStr ''A1''))])"
    unfolding p by (rule overview_route) (simp_all add: exampleEnv_def)
  have t: "tier2Eligible ?env ''solana_wallet_overview''"
    by (simp add: tier2Eligible_def exampleEnv_def)
  from full_miss_populates [OF overview_wellFormed overview_cacheable l r] t
  have "\<exists>srv'. dispatch ?env emptyServer overviewRequest =
        (success overviewResult (Some (JNum 1)), srv',
         [CacheRead Tier1 overviewKey, CacheRead Tier2 overviewKey,
          Handler ''solana_wallet_overview'',
          Upstream (WalletTokens (JStr ''A1'')), Upstream (WalletNfts (JStr ''A1'')),
          CacheWrite Tier1 overviewKey 120, CacheWrite Tier2 overviewKey 300]) \<and>
      memoryCache srv' = [overviewKey \<mapsto> (overviewResult, 122000)] \<and>
      redisStore srv' = [overviewKey \<mapsto> (stringify overviewResult, 302000)]"
    by (auto simp: p overviewKey_def exampleEnv_def emptyServer_def)
  with l show ?thesis by (simp add: p overviewKey_def)
qed

text \<open>
  Claim C10. A generative call that fails leaves the session context store as it was,
  whether the parameters are rejected (no provider invocation is made then) or the
  provider fails; together with the theorem for C3, the store changes only on success.
\<close>

theorem generate_failure_keeps_context:
  "(\<forall>e store' calls. generate f P store params = (Inl e, store', calls) \<longrightarrow> store' = store) \<and>
   ((\<nexists>p sid. accepted params p sid) \<longrightarrow> (\<exists>e. generate f P store params = (Inl e, store, 0)))"
proof (intro conjI allI impI)
  fix e store' calls
  assume h: "generate f P store params = (Inl e, store', calls)"
  show "store' = store"
  proof (cases "\<exists>p sid. accepted params p sid")
    case True
    then obtain p sid where "accepted params p sid" by blast
    with h show ?thesis
      using conclude_failure by (simp add: generate_accepted)
  next
    case False
    then obtain e' where "generate f P store params = (Inl e', store, 0)"
      using generate_rejected by blast
    with h show ?thesis by simp
  qed
next
  assume "\<nexists>p sid. accepted params p sid"
  then show "\<exists>e. generate f P store params = (Inl e, store, 0)"
    by (rule generate_rejected)
qed

theorem generate_failure_keeps_context_witness:
  "generate OpenAI (\<lambda>req n. Rejected (Some 503) ''down'') [JStr ''s1'' \<mapsto> nineTurns] askParams
     = (Inl (mcpError ''OpenAI error: '' ''down''), [JStr ''s1'' \<mapsto> nineTurns], 3)
   \<and> (\<nexists>p sid. accepted (Some (JObj [(''prompt'', JStr ''hi'')])) p sid)
   \<and> (\<exists>e. generate Anthropic (\<lambda>req n. Resolved (Text ''yo'')) [JStr ''s1'' \<mapsto> nineTurns]
              (Some (JObj [(''prompt'', JStr ''hi'')]))
         = (Inl e, [JStr ''s1'' \<mapsto> nineTurns], 0))"
proof -
  obtain r s c where run: "generate OpenAI (\<lambda>req n. Rejected (Some 503) ''down'')
      [JStr ''s1'' \<mapsto> nineTurns] askParams = (r, s, c)"
    by (rule prod_cases3)
  have rc: "r = Inl (mcpError ''OpenAI error: '' ''down'') \<and> c = 3"
    using run
    by (simp add: handleOpenAIGenerate_def askParams_def destructure_def Let_def isString_def
        stringOf_def orDefault_def contextGet_def openaiLoop.simps maxAttempts_def retryable_def)
  have s: "s = [JStr ''s1'' \<mapsto> nineTurns]"
    using generate_failure_keeps_context [where f = OpenAI
        and P = "\<lambda>req n. Rejected (Some 503) ''down''"
        and store = "[JStr ''s1'' \<mapsto> nineTurns]" and params = askParams] run rc
    by blast
  have n: "\<nexists>p sid. accepted (Some (JObj [(''prompt'', JStr ''hi'')])) p sid"
    by (simp add: accepted_def)
  from generate_failure_keeps_context [where f = Anthropic
        and P = "\<lambda>req n. Resolved (Text ''yo'')"
        and store = "[JStr ''s1'' \<mapsto> nineTurns]"
        and params = "Some (JObj [(''prompt'', JStr ''hi'')])"] n run rc s
  show ?thesis by blast
qed

end
